theory Spec2Isabelle
  imports Complex_Main
begin

section \<open>Python values used by the module\<close>

text \<open>
  Strings are byte strings (ASCII). A Python \<open>float\<close> is read as a real number; the
  cost formulas below are written as the source associates them, and the only place
  where a theorem regroups a sum is the \<open>sum_list\<close> form of the sum over the lines,
  given beside Python's left-to-right one. An exception is a value; every raise of the
  source is a branch that returns \<open>Inl\<close>.
\<close>

datatype exn =
    AttributeError string
  | ValueError string
  | UserError string
  | UomError string

text \<open>\<open>str(e)\<close>: the message an exception carries.\<close>

fun str_exn :: "exn \<Rightarrow> string" where
  "str_exn (AttributeError m) = m"
| "str_exn (ValueError m) = m"
| "str_exn (UserError m) = m"
| "str_exn (UomError m) = m"

datatype date = Date nat nat nat

subsection \<open>\<open>str.strip\<close>, \<open>str.lower\<close>, \<open>str.replace\<close>, \<open>str(int)\<close>\<close>

definition is_space :: "char \<Rightarrow> bool" where
  "is_space c = (c \<in> set [CHR '' '', CHR 0x09, CHR 0x0A, CHR 0x0B, CHR 0x0C, CHR 0x0D,
                            CHR 0x1C, CHR 0x1D, CHR 0x1E, CHR 0x1F])"

definition strip :: "string \<Rightarrow> string" where
  "strip s = rev (dropWhile is_space (rev (dropWhile is_space s)))"

definition lower_char :: "char \<Rightarrow> char" where
  "lower_char c =
     (case map_of (zip ''ABCDEFGHIJKLMNOPQRSTUVWXYZ'' ''abcdefghijklmnopqrstuvwxyz'') c of
        Some l \<Rightarrow> l
      | None \<Rightarrow> c)"

definition lower :: "string \<Rightarrow> string" where
  "lower s = map lower_char s"

text \<open>\<open>s.replace(",", ".")\<close>: every comma becomes a period.\<close>

definition replace_comma :: "string \<Rightarrow> string" where
  "replace_comma s = map (\<lambda>c. if c = CHR '','' then CHR ''.'' else c) s"

definition digit_char :: "nat \<Rightarrow> char" where
  "digit_char d = ''0123456789'' ! d"

function str_nat :: "nat \<Rightarrow> string" where
  "str_nat n = (if n < 10 then [digit_char n] else str_nat (n div 10) @ [digit_char (n mod 10)])"
  by pat_completeness auto
termination
  by (relation "measure (\<lambda>n. n)") auto

declare str_nat.simps [simp del]

subsection \<open>\<open>float(str)\<close> on decimal literals\<close>

text \<open>
  The grammar of \<open>float\<close>: an optional sign, digits (single underscores allowed between
  digits) with an optional point, an optional exponent. The value is the literal's
  value. The spellings \<open>inf\<close>, \<open>infinity\<close> and \<open>nan\<close>, which Python also accepts, denote no
  real number and are outside this parser.
\<close>

definition digit_of :: "char \<Rightarrow> nat option" where
  "digit_of c = map_of (zip ''0123456789'' [0, 1, 2, 3, 4, 5, 6, 7, 8, 9]) c"

fun digits_acc :: "nat \<Rightarrow> string \<Rightarrow> nat option" where
  "digits_acc a [] = Some a"
| "digits_acc a (c # cs) =
     (case digit_of c of
        Some d \<Rightarrow> digits_acc (10 * a + d) cs
      | None \<Rightarrow>
          if c = CHR ''_'' then
            (case cs of
               [] \<Rightarrow> None
             | c' # _ \<Rightarrow> (case digit_of c' of None \<Rightarrow> None | Some _ \<Rightarrow> digits_acc a cs))
          else None)"

definition digitpart :: "string \<Rightarrow> nat option" where
  "digitpart s =
     (case s of
        [] \<Rightarrow> None
      | c # _ \<Rightarrow> (case digit_of c of None \<Rightarrow> None | Some _ \<Rightarrow> digits_acc 0 s))"

definition n_digits :: "string \<Rightarrow> nat" where
  "n_digits s = length (filter (\<lambda>c. digit_of c \<noteq> None) s)"

text \<open>A signed integer literal of an exponent: \<open>[sign] digitpart\<close>.\<close>

definition signed_digitpart :: "string \<Rightarrow> int option" where
  "signed_digitpart s =
     (case s of
        [] \<Rightarrow> None
      | c # cs \<Rightarrow>
          if c = CHR ''-'' then map_option (\<lambda>n. - int n) (digitpart cs)
          else if c = CHR ''+'' then map_option int (digitpart cs)
          else map_option int (digitpart s))"

text \<open>\<open>number ::= [digitpart] "." digitpart | digitpart ["."]\<close>, as mantissa and scale.\<close>

definition number :: "string \<Rightarrow> (nat \<times> nat) option" where
  "number s =
     (let ip = takeWhile (\<lambda>c. c \<noteq> CHR ''.'') s;
          rest = dropWhile (\<lambda>c. c \<noteq> CHR ''.'') s
      in case rest of
           [] \<Rightarrow> map_option (\<lambda>n. (n, 0)) (digitpart ip)
         | _ # fp \<Rightarrow>
             if fp = [] then map_option (\<lambda>n. (n, 0)) (digitpart ip)
             else (case digitpart fp of
                     None \<Rightarrow> None
                   | Some f \<Rightarrow>
                       if ip = [] then Some (f, n_digits fp)
                       else map_option (\<lambda>n. (n * 10 ^ n_digits fp + f, n_digits fp))
                              (digitpart ip)))"

definition scale10 :: "real \<Rightarrow> int \<Rightarrow> real" where
  "scale10 x e = (if 0 \<le> e then x * 10 ^ nat e else x / 10 ^ nat (- e))"

definition floatnumber :: "string \<Rightarrow> real option" where
  "floatnumber s =
     (let is_e = (\<lambda>c. c = CHR ''e'' \<or> c = CHR ''E'');
          m = takeWhile (\<lambda>c. \<not> is_e c) s;
          rest = dropWhile (\<lambda>c. \<not> is_e c) s
      in case number m of
           None \<Rightarrow> None
         | Some (n, k) \<Rightarrow>
             (case rest of
                [] \<Rightarrow> Some (scale10 (real n) (- int k))
              | _ # ex \<Rightarrow>
                  (case signed_digitpart ex of
                     None \<Rightarrow> None
                   | Some e \<Rightarrow> Some (scale10 (real n) (e - int k)))))"

definition py_float :: "string \<Rightarrow> real option" where
  "py_float s =
     (case strip s of
        [] \<Rightarrow> None
      | c # cs \<Rightarrow>
          if c = CHR ''-'' then map_option uminus (floatnumber cs)
          else if c = CHR ''+'' then floatnumber cs
          else floatnumber (c # cs))"

text \<open>The \<open>ValueError\<close> of \<open>float\<close> on a string it rejects.\<close>

definition float_error :: "string \<Rightarrow> exn" where
  "float_error s =
     ValueError (''could not convert string to float: '' @ [CHR 0x27] @ s @ [CHR 0x27])"

section \<open>The environment: the framework and the library\<close>

text \<open>
  What the module calls and does not define is a field of the environment: Python's
  \<open>float\<close> and \<open>datetime.strptime\<close> (\<open>None\<close> is \<open>ValueError\<close>), today's date, the ORM's
  \<open>=ilike\<close> operator (pattern, then value), \<open>env.ref\<close> with
  \<open>raise_if_not_found=False\<close> (the unit's id), the system parameters
  (\<open>get_param key default\<close>) and the unit registry's \<open>_compute_quantity\<close>
  (\<open>compute_quantity from qty to\<close>, \<open>Inl\<close> when it raises), and the decoding of the
  uploaded file followed by \<open>csv.reader\<close> (\<open>csv_reader file delimiter\<close>, the cells of
  every line). A payload that cannot be decoded or tokenised raises outside the loop's
  \<open>try\<close>; the reader's result is taken as given.
\<close>

record env =
  float_of :: "string \<Rightarrow> real option"
  strptime :: "string \<Rightarrow> string \<Rightarrow> date option"
  today :: date
  ilike :: "string \<Rightarrow> string \<Rightarrow> bool"
  ref :: "string \<Rightarrow> nat option"
  get_param :: "string \<Rightarrow> string \<Rightarrow> string"
  compute_quantity :: "nat \<Rightarrow> real \<Rightarrow> nat \<Rightarrow> exn + real"
  csv_reader :: "string \<Rightarrow> string \<Rightarrow> string list list"

section \<open>Data model\<close>

text \<open>
  A \<open>Many2one\<close> field is \<open>None\<close> when unset (the empty recordset, falsy). A reference
  whose fields the code reads (\<open>ingredient_id\<close>, \<open>sub_recipe_id\<close> of a line) holds the
  referenced row; a reference that is only stored or passed on holds the row's id.
  \<open>ident\<close> is the ORM's \<open>id\<close>.
\<close>

record recipe_ingredient =
  ident :: nat
  name :: string
  code :: "string option"
  category_id :: "nat option"
  uom_id :: "nat option"
  price :: real
  price_date :: "date option"
  supplier_id :: "nat option"
  active :: bool
  ingredient_notes :: "string option"

text \<open>
  The stored columns of \<open>recipe.recipe\<close> that the cost engine reads or writes (name,
  code, image, category, product and the texts play no part in it); the lines are a
  \<open>One2many\<close>, added below. A line keeps its \<open>recipe_id\<close> implicitly, by being in
  \<open>line_ids\<close>.
\<close>

record recipe_row =
  portions :: int
  labor_hours :: real
  energy_hours :: real
  packaging_cost :: real
  extra_cost :: real
  ingredient_cost :: real
  labor_cost :: real
  energy_cost :: real
  total_cost :: real
  grand_total :: real
  cost_per_portion :: real
  cost_per_portion_no_labor :: real

record recipe_line =
  sequence :: int
  ingredient_id :: "recipe_ingredient option"
  sub_recipe_id :: "recipe_row option"
  quantity :: real
  line_uom_id :: "nat option"
  cost :: real

record recipe = recipe_row +
  line_ids :: "recipe_line list"

section \<open>Cost engine (models/recipe\_recipe.py)\<close>

text \<open>\<open>RecipeRecipeLine._compute_cost\<close>: the loop over \<open>self\<close> is the \<open>map\<close>.\<close>

definition compute_cost :: "env \<Rightarrow> recipe_line list \<Rightarrow> recipe_line list" where
  "compute_cost E self =
     map (\<lambda>line.
       let c =
         (case (ingredient_id line, quantity line \<noteq> 0) of
            (Some ing, True) \<Rightarrow>
              (case (line_uom_id line, uom_id ing) of
                 (Some u, Some iu) \<Rightarrow>
                   (case compute_quantity E u (quantity line) iu of
                      Inr qty_in_ingredient_uom \<Rightarrow> qty_in_ingredient_uom * price ing
                    | Inl e \<Rightarrow> quantity line * price ing)
               | _ \<Rightarrow> quantity line * price ing)
          | _ \<Rightarrow>
              (case (sub_recipe_id line, quantity line \<noteq> 0) of
                 (Some sub, True) \<Rightarrow> quantity line * total_cost sub
               | _ \<Rightarrow> 0))
       in line\<lparr>cost := c\<rparr>) self"

text \<open>
  \<open>Recipe._compute_costs\<close>: the two rates are read and parsed first (\<open>float\<close> raises
  \<open>ValueError\<close> on a stored value that is no number), then every recipe of \<open>self\<close> gets
  its seven derived fields. \<open>sum\<close> adds from the left, starting at 0.
\<close>

definition compute_costs :: "env \<Rightarrow> recipe list \<Rightarrow> exn + recipe list" where
  "compute_costs E self =
     (case float_of E (get_param E ''chefrulo_recipe.labor_rate'' ''0'') of
        None \<Rightarrow> Inl (float_error (get_param E ''chefrulo_recipe.labor_rate'' ''0''))
      | Some labor_rate \<Rightarrow>
     (case float_of E (get_param E ''chefrulo_recipe.energy_rate'' ''0'') of
        None \<Rightarrow> Inl (float_error (get_param E ''chefrulo_recipe.energy_rate'' ''0''))
      | Some energy_rate \<Rightarrow>
        Inr (map (\<lambda>r.
          let ingredient_cost' = foldl (+) 0 (map cost (line_ids r));
              labor_cost' = labor_hours r * labor_rate;
              energy_cost' = energy_hours r * energy_rate;
              total_cost' = ingredient_cost' + energy_cost' + packaging_cost r + extra_cost r;
              grand_total' = total_cost' + labor_cost';
              cost_per_portion_no_labor' =
                (if portions r \<noteq> 0 then total_cost' / real_of_int (portions r) else 0);
              cost_per_portion' =
                (if portions r \<noteq> 0 then grand_total' / real_of_int (portions r) else 0)
          in r\<lparr>ingredient_cost := ingredient_cost',
                labor_cost := labor_cost',
                energy_cost := energy_cost',
                total_cost := total_cost',
                grand_total := grand_total',
                cost_per_portion := cost_per_portion',
                cost_per_portion_no_labor := cost_per_portion_no_labor'\<rparr>) self)))"

text \<open>\<open>action_recompute_costs\<close>: the manual recompute.\<close>

definition action_recompute_costs :: "env \<Rightarrow> recipe list \<Rightarrow> exn + recipe list" where
  "action_recompute_costs E self = compute_costs E self"

section \<open>Ingredient importer (wizard/ingredient\_import.py)\<close>

subsection \<open>The tables the importer reads and writes\<close>

text \<open>
  A table is the list of its rows in the order \<open>search\<close> returns them; \<open>search(..., limit=1)\<close>
  is the first row that satisfies the domain, \<open>create\<close> adds a row with a fresh id.
\<close>

record uom_uom =
  uom_ident :: nat
  uom_name :: string

record recipe_ingredient_category =
  category_ident :: nat
  category_name :: string
  parent_id :: "nat option"

record res_partner =
  partner_ident :: nat
  partner_name :: string

record db =
  ingredients :: "recipe_ingredient list"
  categories :: "recipe_ingredient_category list"
  partners :: "res_partner list"
  uoms :: "uom_uom list"

definition next_id :: "nat list \<Rightarrow> nat" where
  "next_id ids = Suc (foldr max ids 0)"

subsection \<open>Lookups\<close>

definition UOM_MAPPING :: "(string \<times> string) list" where
  "UOM_MAPPING =
     [(''kg'', ''uom.product_uom_kgm''),
      (''kilo'', ''uom.product_uom_kgm''),
      (''kilogram'', ''uom.product_uom_kgm''),
      (''g'', ''uom.product_uom_gram''),
      (''gram'', ''uom.product_uom_gram''),
      (''l'', ''uom.product_uom_litre''),
      (''liter'', ''uom.product_uom_litre''),
      (''litre'', ''uom.product_uom_litre''),
      (''ml'', ''uom.product_uom_millilitre''),
      (''milliliter'', ''uom.product_uom_millilitre''),
      (''millilitre'', ''uom.product_uom_millilitre''),
      (''unit'', ''uom.product_uom_unit''),
      (''units'', ''uom.product_uom_unit''),
      (''pcs'', ''uom.product_uom_unit''),
      (''piece'', ''uom.product_uom_unit''),
      (''dozen'', ''uom.product_uom_dozen'')]"

text \<open>\<open>_get_uom\<close>: the unit's id, \<open>None\<close> for the falsy results (\<open>False\<close>, no row found).\<close>

definition get_uom :: "env \<Rightarrow> db \<Rightarrow> string \<Rightarrow> nat option" where
  "get_uom E d uom_name' =
     (if uom_name' = [] then None
      else
        let uom_name_lower = strip (lower uom_name') in
        case (case map_of UOM_MAPPING uom_name_lower of
                Some xmlid \<Rightarrow> ref E xmlid
              | None \<Rightarrow> None) of
          Some uom \<Rightarrow> Some uom
        | None \<Rightarrow> map_option uom_ident (find (\<lambda>u. ilike E uom_name' (uom_name u)) (uoms d)))"

text \<open>\<open>_get_or_create_category\<close>: the category's id and the tables after the call.\<close>

definition get_or_create_category :: "env \<Rightarrow> db \<Rightarrow> string \<Rightarrow> nat option \<times> db" where
  "get_or_create_category E d category_name' =
     (if category_name' = [] then (None, d)
      else
        case find (\<lambda>c. ilike E (strip category_name') (category_name c)) (categories d) of
          Some category \<Rightarrow> (Some (category_ident category), d)
        | None \<Rightarrow>
            let category = \<lparr>category_ident = next_id (map category_ident (categories d)),
                             category_name = strip category_name',
                             parent_id = None\<rparr>
            in (Some (category_ident category), d\<lparr>categories := categories d @ [category]\<rparr>))"

text \<open>\<open>_get_or_create_supplier\<close>.\<close>

definition get_or_create_supplier :: "env \<Rightarrow> db \<Rightarrow> string \<Rightarrow> nat option \<times> db" where
  "get_or_create_supplier E d supplier_name =
     (if supplier_name = [] then (None, d)
      else
        case find (\<lambda>p. ilike E (strip supplier_name) (partner_name p)) (partners d) of
          Some partner \<Rightarrow> (Some (partner_ident partner), d)
        | None \<Rightarrow>
            let partner = \<lparr>partner_ident = next_id (map partner_ident (partners d)),
                            partner_name = strip supplier_name\<rparr>
            in (Some (partner_ident partner), d\<lparr>partners := partners d @ [partner]\<rparr>))"

definition date_formats :: "string list" where
  "date_formats = [''%Y-%m-%d'', ''%d/%m/%Y'', ''%m/%d/%Y'', ''%d-%m-%Y'', ''%Y/%m/%d'']"

text \<open>\<open>_parse_date\<close>: the first format that parses wins; \<open>None\<close> is \<open>False\<close>.\<close>

definition parse_date :: "env \<Rightarrow> string \<Rightarrow> date option" where
  "parse_date E date_str =
     (if date_str = [] then None
      else case List.map_filter (\<lambda>fmt. strptime E (strip date_str) fmt) date_formats of
             [] \<Rightarrow> None
           | d # _ \<Rightarrow> Some d)"

subsection \<open>\<open>csv.DictReader\<close>\<close>

text \<open>
  A row of the reader is a dictionary from the (normalised) header names to the cells; a
  line shorter than the header gives its missing columns the value \<open>None\<close> (the inner
  \<open>None\<close>), and blank lines are skipped. The cells of a line longer than the header go
  under the key \<open>None\<close>, which the importer never reads.
\<close>

type_synonym row = "string \<rightharpoonup> string option"

definition dict_row :: "string list \<Rightarrow> string list \<Rightarrow> row" where
  "dict_row fieldnames cells =
     foldl (\<lambda>m k. m(k \<mapsto> None))
       (foldl (\<lambda>m (k, v). m(k \<mapsto> Some v)) Map.empty (zip fieldnames cells))
       (drop (length cells) fieldnames)"

text \<open>The header of \<open>action_import\<close>: \<open>[h.lower().strip() for h in reader.fieldnames]\<close>.\<close>

definition DictReader :: "string list list \<Rightarrow> row list" where
  "DictReader lines =
     (case lines of
        [] \<Rightarrow> []
      | header # rest \<Rightarrow>
          map (dict_row (map (\<lambda>h. strip (lower h)) header)) (filter (\<lambda>cells. cells \<noteq> []) rest))"

text \<open>\<open>row.get(key, default)\<close>, and \<open>.strip()\<close> on what it returns.\<close>

definition row_get :: "row \<Rightarrow> string \<Rightarrow> string option \<Rightarrow> string option" where
  "row_get r k dflt = (case r k of None \<Rightarrow> dflt | Some v \<Rightarrow> v)"

definition strip_cell :: "string option \<Rightarrow> exn + string" where
  "strip_cell v =
     (case v of
        None \<Rightarrow> Inl (AttributeError ([CHR 0x27] @ ''NoneType'' @ [CHR 0x27]
                 @ '' object has no attribute '' @ [CHR 0x27] @ ''strip'' @ [CHR 0x27]))
      | Some s \<Rightarrow> Inr (strip s))"

fun bind_exn :: "exn + 'a \<Rightarrow> ('a \<Rightarrow> exn + 'b) \<Rightarrow> exn + 'b" where
  "bind_exn (Inl e) f = Inl e"
| "bind_exn (Inr x) f = f x"

subsection \<open>\<open>create\<close> and \<open>write\<close> on recipe.ingredient\<close>

text \<open>The dictionary \<open>vals\<close>: four keys always, three only when the row gave them.\<close>

record vals =
  vals_name :: string
  vals_price :: real
  vals_uom_id :: nat
  vals_price_date :: date
  vals_code :: "string option"
  vals_category_id :: "nat option"
  vals_supplier_id :: "nat option"

definition write_vals :: "vals \<Rightarrow> recipe_ingredient \<Rightarrow> recipe_ingredient" where
  "write_vals v ing =
     ing\<lparr>name := vals_name v,
         price := vals_price v,
         uom_id := Some (vals_uom_id v),
         price_date := Some (vals_price_date v),
         code := (case vals_code v of Some c \<Rightarrow> Some c | None \<Rightarrow> code ing),
         category_id := (case vals_category_id v of Some c \<Rightarrow> Some c | None \<Rightarrow> category_id ing),
         supplier_id := (case vals_supplier_id v of Some s \<Rightarrow> Some s | None \<Rightarrow> supplier_id ing)\<rparr>"

text \<open>A new row: the model's defaults (\<open>active\<close> is \<open>True\<close>, the rest unset), then \<open>vals\<close>.\<close>

definition create_ingredient :: "vals \<Rightarrow> recipe_ingredient list \<Rightarrow> recipe_ingredient list" where
  "create_ingredient v tbl =
     tbl @ [write_vals v
              \<lparr>ident = next_id (map ident tbl), name = [], code = None, category_id = None,
               uom_id = None, price = 0, price_date = None, supplier_id = None,
               active = True, ingredient_notes = None\<rparr>]"

definition write_ingredient ::
  "recipe_ingredient \<Rightarrow> vals \<Rightarrow> recipe_ingredient list \<Rightarrow> recipe_ingredient list" where
  "write_ingredient ingredient v tbl =
     map (\<lambda>i. if ident i = ident ingredient then write_vals v i else i) tbl"

subsection \<open>\<open>action_import\<close>\<close>

text \<open>
  What the body of the \<open>try\<close> does with one row: it appends a message and continues
  (\<open>Skip\<close>), or it creates or updates an ingredient; \<open>Inl\<close> is an exception, which the
  \<open>except\<close> clause of the loop turns into a message.
\<close>

datatype outcome = Skip string | Created db | Updated db

text \<open>
  The block \<open># Get values from row\<close>: seven cells, each stripped. \<open>.strip()\<close> on the
  \<open>None\<close> of a short line raises \<open>AttributeError\<close>, at the first such cell.
\<close>

record row_values =
  v_code :: string
  v_name :: string
  v_category_name :: string
  v_price_str :: string
  v_uom_name :: string
  v_supplier_name :: string
  v_date_str :: string

definition get_values :: "row \<Rightarrow> exn + row_values" where
  "get_values r =
     bind_exn (strip_cell (row_get r ''code'' (Some ''''))) (\<lambda>code'.
     bind_exn (strip_cell (row_get r ''name'' (Some ''''))) (\<lambda>name'.
     bind_exn (strip_cell (row_get r ''category'' (Some ''''))) (\<lambda>category_name'.
     bind_exn (strip_cell (row_get r ''price'' (Some ''0''))) (\<lambda>price_str.
     bind_exn (strip_cell (row_get r ''uom'' (row_get r ''unit'' (Some '''')))) (\<lambda>uom_name'.
     bind_exn (strip_cell (row_get r ''supplier'' (Some ''''))) (\<lambda>supplier_name.
     bind_exn (strip_cell (row_get r ''date'' (Some ''''))) (\<lambda>date_str.
       Inr \<lparr>v_code = code', v_name = name', v_category_name = category_name',
            v_price_str = price_str, v_uom_name = uom_name',
            v_supplier_name = supplier_name, v_date_str = date_str\<rparr>)))))))"

text \<open>The rest of the \<open>try\<close> body: validation, lookups, \<open>vals\<close>, then create or update.\<close>

definition import_row_body :: "env \<Rightarrow> db \<Rightarrow> nat \<Rightarrow> row \<Rightarrow> exn + outcome" where
  "import_row_body E d n r =
     bind_exn (get_values r) (\<lambda>c.
       if v_name c = [] then
         Inr (Skip (''Row '' @ str_nat n @ '': Missing name''))
       else if v_uom_name c = [] then
         Inr (Skip (''Row '' @ str_nat n @ '': Missing unit of measure''))
       else
         (case float_of E (replace_comma (v_price_str c)) of
           None \<Rightarrow>
             Inr (Skip (''Row '' @ str_nat n @ '': Invalid price '' @ [CHR 0x27]
                        @ v_price_str c @ [CHR 0x27]))
         | Some price' \<Rightarrow>
             (case get_uom E d (v_uom_name c) of
                None \<Rightarrow>
                  Inr (Skip (''Row '' @ str_nat n @ '': Unknown UoM '' @ [CHR 0x27]
                             @ v_uom_name c @ [CHR 0x27]))
              | Some uom \<Rightarrow>
                  let (category, d1) =
                        (if v_category_name c \<noteq> []
                         then get_or_create_category E d (v_category_name c)
                         else (None, d));
                      (supplier, d2) =
                        (if v_supplier_name c \<noteq> []
                         then get_or_create_supplier E d1 (v_supplier_name c)
                         else (None, d1));
                      price_date' =
                        (case parse_date E (v_date_str c) of
                           Some dt \<Rightarrow> dt
                         | None \<Rightarrow> today E);
                      by_code =
                        (if v_code c \<noteq> []
                         then find (\<lambda>i. code i = Some (v_code c)) (ingredients d2)
                         else None);
                      ingredient =
                        (case by_code of
                           Some i \<Rightarrow> Some i
                         | None \<Rightarrow> find (\<lambda>i. ilike E (v_name c) (name i)) (ingredients d2));
                      v = \<lparr>vals_name = v_name c,
                           vals_price = price',
                           vals_uom_id = uom,
                           vals_price_date = price_date',
                           vals_code = (if v_code c \<noteq> [] then Some (v_code c) else None),
                           vals_category_id = category,
                           vals_supplier_id = supplier\<rparr>
                  in (case ingredient of
                        Some i \<Rightarrow>
                          Inr (Updated (d2\<lparr>ingredients := write_ingredient i v (ingredients d2)\<rparr>))
                      | None \<Rightarrow>
                          Inr (Created (d2\<lparr>ingredients := create_ingredient v (ingredients d2)\<rparr>))))))"

record import_state =
  created :: nat
  updated :: nat
  errors :: "string list"
  row_num :: nat
  store :: db

text \<open>One turn of the loop \<open>for row in reader\<close>.\<close>

definition import_row :: "env \<Rightarrow> import_state \<Rightarrow> row \<Rightarrow> import_state" where
  "import_row E st r =
     (let n = row_num st + 1;
          st1 = st\<lparr>row_num := n\<rparr>
      in case import_row_body E (store st) n r of
           Inl e \<Rightarrow> st1\<lparr>errors := errors st @ [''Row '' @ str_nat n @ '': '' @ str_exn e]\<rparr>
         | Inr (Skip msg) \<Rightarrow> st1\<lparr>errors := errors st @ [msg]\<rparr>
         | Inr (Created d') \<Rightarrow> st1\<lparr>created := created st + 1, store := d'\<rparr>
         | Inr (Updated d') \<Rightarrow> st1\<lparr>updated := updated st + 1, store := d'\<rparr>)"

definition import_rows :: "env \<Rightarrow> import_state \<Rightarrow> row list \<Rightarrow> import_state" where
  "import_rows E st rows = foldl (import_row E) st rows"

definition init_state :: "db \<Rightarrow> import_state" where
  "init_state d = \<lparr>created = 0, updated = 0, errors = [], row_num = 1, store = d\<rparr>"

text \<open>The lines of the report, and \<open>"\\n".join\<close>.\<close>

definition result_lines :: "nat \<Rightarrow> nat \<Rightarrow> string list \<Rightarrow> string list" where
  "result_lines n_created n_updated errs =
     [''Import completed!'',
      ''Created: '' @ str_nat n_created,
      ''Updated: '' @ str_nat n_updated]
     @ (if errs \<noteq> [] then
          [[CHR 0x0A] @ ''Errors ('' @ str_nat (length errs) @ ''):'']
          @ take 20 errs
          @ (if length errs > 20
             then [''... and '' @ str_nat (length errs - 20) @ '' more errors'']
             else [])
        else [])"

fun join_lines :: "string list \<Rightarrow> string" where
  "join_lines [] = []"
| "join_lines [l] = l"
| "join_lines (l # ls) = l @ [CHR 0x0A] @ join_lines ls"

record ingredient_import =
  file_data :: "string option"
  filename :: "string option"
  delimiter :: string
  result_message :: "string option"
  state :: string

definition action_import ::
  "env \<Rightarrow> db \<Rightarrow> ingredient_import \<Rightarrow> exn + (ingredient_import \<times> db)" where
  "action_import E d self =
     (case file_data self of
        None \<Rightarrow> Inl (UserError ''Please select a CSV file to import.'')
      | Some f \<Rightarrow>
          if f = [] then Inl (UserError ''Please select a CSV file to import.'')
          else
            let st = import_rows E (init_state d) (DictReader (csv_reader E f (delimiter self)))
            in Inr (self\<lparr>result_message :=
                           Some (join_lines (result_lines (created st) (updated st) (errors st))),
                         state := ''done''\<rparr>,
                    store st))"

subsection \<open>Row-level failures\<close>

text \<open>
  The row-level failures as the specification lists them, with the text each one puts
  after \<open>Row n:\<close>: an unexpected exception (its message), a missing name, a missing unit
  of measure, a price that does not parse, a unit that does not resolve. \<open>None\<close>: the
  row passes validation.
\<close>

definition row_failure :: "env \<Rightarrow> db \<Rightarrow> row \<Rightarrow> string option" where
  "row_failure E d r =
     (case get_values r of
        Inl e \<Rightarrow> Some (str_exn e)
      | Inr c \<Rightarrow>
          if v_name c = [] then Some ''Missing name''
          else if v_uom_name c = [] then Some ''Missing unit of measure''
          else if float_of E (replace_comma (v_price_str c)) = None
            then Some (''Invalid price '' @ [CHR 0x27] @ v_price_str c @ [CHR 0x27])
          else if get_uom E d (v_uom_name c) = None
            then Some (''Unknown UoM '' @ [CHR 0x27] @ v_uom_name c @ [CHR 0x27])
          else None)"

section \<open>Concrete inputs\<close>

text \<open>
  An environment with three units (1 kilogram, 2 gram, 3 unit), a gram-kilogram
  conversion that fails across categories, a labour rate of 15.5 and no energy rate.
\<close>

definition uom_conv :: "nat \<Rightarrow> real \<Rightarrow> nat \<Rightarrow> exn + real" where
  "uom_conv u q t =
     (if u = t then Inr q
      else if u = 2 \<and> t = 1 then Inr (q / 1000)
      else if u = 1 \<and> t = 2 then Inr (q * 1000)
      else Inl (UomError ''The units of measure belong to different categories.''))"

definition strptime_iso :: "string \<Rightarrow> string \<Rightarrow> date option" where
  "strptime_iso s fmt =
     (if fmt = ''%Y-%m-%d'' \<and> s = ''2024-01-15'' then Some (Date 2024 1 15) else None)"

definition E0 :: env where
  "E0 = \<lparr>float_of = py_float,
         strptime = strptime_iso,
         today = Date 2026 11 4,
         ilike = (\<lambda>p v. lower p = lower v),
         ref = map_of [(''uom.product_uom_kgm'', 1), (''uom.product_uom_gram'', 2),
                       (''uom.product_uom_unit'', 3)],
         get_param = (\<lambda>k dflt. if k = ''chefrulo_recipe.labor_rate'' then ''15.5'' else dflt),
         compute_quantity = uom_conv,
         csv_reader = (\<lambda>f dl. [])\<rparr>"


definition flour :: recipe_ingredient where
  "flour = \<lparr>ident = 1, name = ''Flour'', code = Some ''F01'', category_id = None,
            uom_id = Some 1, price = 1.2, price_date = Some (Date 2024 1 15),
            supplier_id = None, active = True, ingredient_notes = None\<rparr>"

definition dough_row :: recipe_row where
  "dough_row = \<lparr>portions = 4, labor_hours = 1, energy_hours = 0, packaging_cost = 0,
                extra_cost = 0, ingredient_cost = 3.5, labor_cost = 0, energy_cost = 0,
                total_cost = 3.5, grand_total = 3.5, cost_per_portion = 0.875,
                cost_per_portion_no_labor = 0.875\<rparr>"

definition line_g :: recipe_line where
  "line_g = \<lparr>sequence = 10, ingredient_id = Some flour, sub_recipe_id = None,
             quantity = 500, line_uom_id = Some 2, cost = 0\<rparr>"

definition line_pcs :: recipe_line where
  "line_pcs = \<lparr>sequence = 20, ingredient_id = Some flour, sub_recipe_id = None,
               quantity = 2, line_uom_id = Some 3, cost = 0\<rparr>"

definition line_sub :: recipe_line where
  "line_sub = \<lparr>sequence = 30, ingredient_id = None, sub_recipe_id = Some dough_row,
               quantity = 2, line_uom_id = Some 3, cost = 0\<rparr>"

definition line_none :: recipe_line where
  "line_none = \<lparr>sequence = 40, ingredient_id = None, sub_recipe_id = None,
                quantity = 1, line_uom_id = Some 3, cost = 99\<rparr>"

definition line_both :: recipe_line where
  "line_both = \<lparr>sequence = 50, ingredient_id = Some flour, sub_recipe_id = Some dough_row,
                quantity = 500, line_uom_id = Some 2, cost = 0\<rparr>"


text \<open>
  Tables with one ingredient (flour) and three units, rows as \<open>DictReader\<close> builds them,
  an environment where no XML id resolves, and an upload of four lines (one blank).
\<close>

definition db0 :: db where
  "db0 = \<lparr>ingredients = [flour], categories = [], partners = [],
          uoms = [\<lparr>uom_ident = 1, uom_name = ''kg''\<rparr>, \<lparr>uom_ident = 2, uom_name = ''g''\<rparr>,
                  \<lparr>uom_ident = 3, uom_name = ''Units''\<rparr>]\<rparr>"

definition sugar :: recipe_ingredient where
  "sugar = \<lparr>ident = 2, name = ''Sugar'', code = Some ''S01'', category_id = None,
            uom_id = Some 1, price = 12.5, price_date = Some (Date 2026 11 4),
            supplier_id = None, active = True, ingredient_notes = None\<rparr>"

definition row_sugar :: row where
  "row_sugar = dict_row [''code'', ''name'', ''price'', ''uom'']
                        [''S01'', ''Sugar'', ''12,50'', ''Kg'']"

definition row_cane :: row where
  "row_cane = dict_row [''code'', ''name'', ''price'', ''uom'']
                       [''S01'', ''Cane sugar'', ''13'', ''kg'']"

definition row_no_price :: row where
  "row_no_price = dict_row [''name'', ''uom''] [''flour'', ''kg'']"

definition row_no_uom :: row where
  "row_no_uom = dict_row [''name'', ''price''] [''Salt'', ''1'']"

definition row_short :: row where
  "row_short = dict_row [''name'', ''price'', ''uom''] [''Salt'']"

definition row_bad_price :: row where
  "row_bad_price = dict_row [''name'', ''price'', ''uom''] [''Salt'', ''abc'', ''kg'']"

definition row_bad_unit :: row where
  "row_bad_unit = dict_row [''name'', ''price'', ''uom''] [''Salt'', ''1'', ''bushel'']"

definition E_noref :: env where
  "E_noref = E0\<lparr>ref := (\<lambda>xmlid. None)\<rparr>"

definition db_named :: db where
  "db_named = \<lparr>ingredients = [], categories = [], partners = [],
               uoms = [\<lparr>uom_ident = 7, uom_name = ''KG''\<rparr>]\<rparr>"

definition E_csv :: env where
  "E_csv = E0\<lparr>csv_reader :=
     (\<lambda>f dl. if f = ''payload'' \<and> dl = '','' then
                [[''Name'', '' Price '', ''UOM''],
                 [''Flour'', ''1.20'', ''kg''],
                 [],
                 [''Salt'', ''x'', ''kg'']]
              else [])\<rparr>"

definition wizard0 :: ingredient_import where
  "wizard0 = \<lparr>file_data = Some ''payload'', filename = None, delimiter = '','',
              result_message = None, state = ''draft''\<rparr>"

section \<open>Evaluation rules\<close>

lemmas py_float_eval = py_float_def strip_def is_space_def floatnumber_def number_def
  digitpart_def digit_of_def n_digits_def scale10_def signed_digitpart_def

lemmas line_defs = flour_def dough_row_def line_g_def line_pcs_def line_sub_def
  line_none_def line_both_def uom_conv_def




section \<open>The cost engine\<close>

text \<open>
  C1. For every recipe line (\<open>l\<close>, at any position \<open>i\<close> of the recordset, \<open>l'\<close> after
  \<open>_compute_cost\<close>): with an ingredient and a non-zero quantity the cost is the quantity
  converted into the ingredient's unit times the ingredient's price; it is the raw
  quantity times the price when either unit is unset or the conversion raises; with no
  ingredient, a sub-recipe and a non-zero quantity it is the quantity times the
  sub-recipe's \<open>total_cost\<close>; with neither reference, or a zero quantity, it is 0. No
  other field of the line changes.
\<close>

theorem compute_cost_line:
  assumes "i < length self" and "l = self ! i" and "l' = compute_cost E self ! i"
  shows "(ingredient_id l = Some ing \<and> quantity l \<noteq> 0 \<and> line_uom_id l = Some u
            \<and> uom_id ing = Some iu \<and> compute_quantity E u (quantity l) iu = Inr q
            \<longrightarrow> cost l' = q * price ing)
       \<and> (ingredient_id l = Some ing \<and> quantity l \<noteq> 0
            \<and> (\<forall>u iu. line_uom_id l = Some u \<and> uom_id ing = Some iu
                  \<longrightarrow> (\<exists>e. compute_quantity E u (quantity l) iu = Inl e))
            \<longrightarrow> cost l' = quantity l * price ing)
       \<and> (ingredient_id l = None \<and> sub_recipe_id l = Some sub \<and> quantity l \<noteq> 0
            \<longrightarrow> cost l' = quantity l * total_cost sub)
       \<and> ((ingredient_id l = None \<and> sub_recipe_id l = None) \<or> quantity l = 0 \<longrightarrow> cost l' = 0)
       \<and> l' = l\<lparr>cost := cost l'\<rparr>"
  using assms unfolding compute_cost_def
  by (auto simp: Let_def split: option.splits sum.splits bool.splits)

text \<open>
  500 g of flour priced per kilogram cost 0.6; 2 units of flour cannot be converted and
  cost 2 times the price; 2 of a sub-recipe of total cost 3.5 cost 7; a line with no
  reference costs 0.
\<close>

theorem compute_cost_line_witness:
  "cost (compute_cost E0 [line_g, line_pcs, line_sub, line_none] ! 0) = 0.6
   \<and> cost (compute_cost E0 [line_g, line_pcs, line_sub, line_none] ! 1) = 2.4
   \<and> cost (compute_cost E0 [line_g, line_pcs, line_sub, line_none] ! 2) = 7
   \<and> cost (compute_cost E0 [line_g, line_pcs, line_sub, line_none] ! 3) = 0"
proof -
  let ?self = "[line_g, line_pcs, line_sub, line_none]"
  have a: "cost (compute_cost E0 ?self ! 0) = 0.6"
    using compute_cost_line [where i = 0 and self = ?self and l = line_g and E = E0
        and ing = flour and u = 2 and iu = 1 and q = "0.5", OF _ _ refl]
    by (simp add: E0_def line_defs)
  have b: "cost (compute_cost E0 ?self ! 1) = 2.4"
    using compute_cost_line [where i = 1 and self = ?self and l = line_pcs and E = E0
        and ing = flour, OF _ _ refl]
    by (simp add: E0_def line_defs)
  have c: "cost (compute_cost E0 ?self ! 2) = 7"
    using compute_cost_line [where i = 2 and self = ?self and l = line_sub and E = E0
        and sub = dough_row, OF _ _ refl]
    by (simp add: E0_def line_defs)
  have d: "cost (compute_cost E0 ?self ! 3) = 0"
    using compute_cost_line [where i = 3 and self = ?self and l = line_none and E = E0,
        OF _ _ refl]
    by (simp add: E0_def line_defs)
  from a b c d show ?thesis by blast
qed






text \<open>
  C10. A line with both an ingredient and a sub-recipe set, and a non-zero quantity, is
  costed by the ingredient branch, and the sub-recipe plays no part: replacing it by any
  other reference, or by none, gives the same line up to that field.
\<close>

theorem compute_cost_ingredient_first:
  assumes "i < length self" and "l = self ! i"
    and "ingredient_id l = Some ing" and "sub_recipe_id l = Some sub" and "quantity l \<noteq> 0"
  shows "cost (compute_cost E self ! i)
           = (case (line_uom_id l, uom_id ing) of
                (Some u, Some iu) \<Rightarrow>
                  (case compute_quantity E u (quantity l) iu of
                     Inr q \<Rightarrow> q * price ing
                   | Inl e \<Rightarrow> quantity l * price ing)
              | _ \<Rightarrow> quantity l * price ing)
       \<and> compute_cost E (self[i := l\<lparr>sub_recipe_id := s'\<rparr>]) ! i
           = (compute_cost E self ! i)\<lparr>sub_recipe_id := s'\<rparr>"
  using assms unfolding compute_cost_def
  by (auto simp: Let_def split: option.splits sum.splits bool.splits)

theorem compute_cost_ingredient_first_witness:
  "ingredient_id line_both = Some flour \<and> sub_recipe_id line_both = Some dough_row
   \<and> quantity line_both \<noteq> 0
   \<and> cost (compute_cost E0 [line_both] ! 0) = 0.6
   \<and> compute_cost E0 ([line_both][0 := line_both\<lparr>sub_recipe_id := None\<rparr>]) ! 0
       = (compute_cost E0 [line_both] ! 0)\<lparr>sub_recipe_id := None\<rparr>"
proof -
  have h: "ingredient_id line_both = Some flour" "sub_recipe_id line_both = Some dough_row"
    "quantity line_both \<noteq> 0"
    by (simp_all add: line_both_def)
  from compute_cost_ingredient_first [of 0 "[line_both]" line_both flour dough_row E0 None,
      OF _ _ h]
  have "cost (compute_cost E0 [line_both] ! 0) = 0.6
   \<and> compute_cost E0 ([line_both][0 := line_both\<lparr>sub_recipe_id := None\<rparr>]) ! 0
       = (compute_cost E0 [line_both] ! 0)\<lparr>sub_recipe_id := None\<rparr>"
    by (simp add: line_both_def flour_def E0_def uom_conv_def)
  with h show ?thesis by blast
qed

section \<open>Facts about the importer\<close>

lemma next_id_fresh: "x \<in> set ids \<Longrightarrow> x < next_id ids"
  unfolding next_id_def by (induction ids) auto

lemma find_append:
  "find P (xs @ ys) = (case find P xs of Some x \<Rightarrow> Some x | None \<Rightarrow> find P ys)"
  by (induction xs) auto

lemma get_or_create_category_frame:
  "get_or_create_category E d s = (cat, d1) \<Longrightarrow>
     ingredients d1 = ingredients d \<and> uoms d1 = uoms d \<and> partners d1 = partners d"
  by (auto simp: get_or_create_category_def Let_def split: if_splits option.splits)

lemma get_or_create_supplier_frame:
  "get_or_create_supplier E d s = (spl, d1) \<Longrightarrow>
     ingredients d1 = ingredients d \<and> uoms d1 = uoms d \<and> categories d1 = categories d"
  by (auto simp: get_or_create_supplier_def Let_def split: if_splits option.splits)

lemma get_uom_cong: "uoms d' = uoms d \<Longrightarrow> get_uom E d' s = get_uom E d s"
  by (simp add: get_uom_def split: option.splits)

lemma import_row_body_valid:
  assumes "get_values r = Inr c" and "v_name c \<noteq> []" and "v_uom_name c \<noteq> []"
    and "float_of E (replace_comma (v_price_str c)) = Some p"
    and "get_uom E d (v_uom_name c) = Some u"
  shows "\<exists>d2 v. ingredients d2 = ingredients d \<and> uoms d2 = uoms d
           \<and> vals_name v = v_name c \<and> vals_price v = p \<and> vals_uom_id v = u
           \<and> vals_price_date v
               = (case parse_date E (v_date_str c) of Some dt \<Rightarrow> dt | None \<Rightarrow> today E)
           \<and> vals_code v = (if v_code c \<noteq> [] then Some (v_code c) else None)
           \<and> (v_category_name c = [] \<longrightarrow> vals_category_id v = None)
           \<and> (v_supplier_name c = [] \<longrightarrow> vals_supplier_id v = None)
           \<and> import_row_body E d n r =
               (case (if v_code c \<noteq> []
                      then find (\<lambda>i. code i = Some (v_code c)) (ingredients d) else None) of
                  Some i \<Rightarrow> Inr (Updated (d2\<lparr>ingredients := write_ingredient i v (ingredients d)\<rparr>))
                | None \<Rightarrow>
                    (case find (\<lambda>i. ilike E (v_name c) (name i)) (ingredients d) of
                       Some i \<Rightarrow>
                         Inr (Updated (d2\<lparr>ingredients := write_ingredient i v (ingredients d)\<rparr>))
                     | None \<Rightarrow>
                         Inr (Created (d2\<lparr>ingredients := create_ingredient v (ingredients d)\<rparr>))))"
proof -
  obtain cat d1 where c1: "(if v_category_name c \<noteq> []
      then get_or_create_category E d (v_category_name c) else (None, d)) = (cat, d1)"
    by (cases "(if v_category_name c \<noteq> []
      then get_or_create_category E d (v_category_name c) else (None, d))") auto
  obtain spl d2 where c2: "(if v_supplier_name c \<noteq> []
      then get_or_create_supplier E d1 (v_supplier_name c) else (None, d1)) = (spl, d2)"
    by (cases "(if v_supplier_name c \<noteq> []
      then get_or_create_supplier E d1 (v_supplier_name c) else (None, d1))") auto
  have f1: "ingredients d1 = ingredients d \<and> uoms d1 = uoms d"
    using c1 get_or_create_category_frame [of E d "v_category_name c" cat d1]
    by (auto split: if_splits)
  have f2: "ingredients d2 = ingredients d1 \<and> uoms d2 = uoms d1"
    using c2 get_or_create_supplier_frame [of E d1 "v_supplier_name c" spl d2]
    by (auto split: if_splits)
  have n1: "v_category_name c = [] \<longrightarrow> cat = None" using c1 by auto
  have n2: "v_supplier_name c = [] \<longrightarrow> spl = None" using c2 by auto
  let ?v = "\<lparr>vals_name = v_name c, vals_price = p, vals_uom_id = u,
             vals_price_date = (case parse_date E (v_date_str c) of
                                  Some dt \<Rightarrow> dt | None \<Rightarrow> today E),
             vals_code = (if v_code c \<noteq> [] then Some (v_code c) else None),
             vals_category_id = cat, vals_supplier_id = spl\<rparr>"
  have "import_row_body E d n r =
               (case (if v_code c \<noteq> []
                      then find (\<lambda>i. code i = Some (v_code c)) (ingredients d) else None) of
                  Some i \<Rightarrow> Inr (Updated (d2\<lparr>ingredients := write_ingredient i ?v (ingredients d)\<rparr>))
                | None \<Rightarrow>
                    (case find (\<lambda>i. ilike E (v_name c) (name i)) (ingredients d) of
                       Some i \<Rightarrow>
                         Inr (Updated (d2\<lparr>ingredients := write_ingredient i ?v (ingredients d)\<rparr>))
                     | None \<Rightarrow>
                         Inr (Created (d2\<lparr>ingredients := create_ingredient ?v (ingredients d)\<rparr>))))"
    unfolding import_row_body_def using assms c1 c2 f1 f2
    by (simp add: Let_def split: option.splits)
  with f1 f2 n1 n2 show ?thesis
    by (intro exI [of _ d2] exI [of _ ?v]) simp
qed

lemma import_row_body_num:
  assumes "get_values r = Inr c" and "v_name c \<noteq> []" and "v_uom_name c \<noteq> []"
    and "float_of E (replace_comma (v_price_str c)) = Some p"
    and "get_uom E d (v_uom_name c) = Some u"
  shows "import_row_body E d n r = import_row_body E d m r"
  unfolding import_row_body_def using assms by simp

lemma import_row_body_failure:
  assumes "row_failure E d r = Some msg"
  shows "(\<exists>e. import_row_body E d n r = Inl e \<and> str_exn e = msg)
       \<or> import_row_body E d n r = Inr (Skip (''Row '' @ str_nat n @ '': '' @ msg))"
  using assms unfolding row_failure_def import_row_body_def
  by (auto split: sum.splits if_splits option.splits)

lemma import_row_failure:
  assumes "row_failure E (store st) r = Some msg"
  shows "import_row E st r
           = st\<lparr>row_num := row_num st + 1,
                errors := errors st @ [''Row '' @ str_nat (row_num st + 1) @ '': '' @ msg]\<rparr>"
  using import_row_body_failure [OF assms, of "row_num st + 1"]
  by (auto simp: import_row_def Let_def)

lemma row_failure_None:
  assumes "row_failure E d r = None"
  shows "\<exists>c p u. get_values r = Inr c \<and> v_name c \<noteq> [] \<and> v_uom_name c \<noteq> []
          \<and> float_of E (replace_comma (v_price_str c)) = Some p
          \<and> get_uom E d (v_uom_name c) = Some u"
  using assms unfolding row_failure_def
  by (auto split: sum.splits if_splits)

lemma import_row_body_success:
  assumes "row_failure E d r = None"
  shows "\<exists>d'. (import_row_body E d n r = Inr (Created d')
              \<or> import_row_body E d n r = Inr (Updated d'))
            \<and> uoms d' = uoms d"
proof -
  from row_failure_None [OF assms] obtain c p u where
    h: "get_values r = Inr c" "v_name c \<noteq> []" "v_uom_name c \<noteq> []"
       "float_of E (replace_comma (v_price_str c)) = Some p"
       "get_uom E d (v_uom_name c) = Some u"
    by blast
  from import_row_body_valid [OF h, of n] show ?thesis
    by (auto split: option.splits if_splits)
qed

lemma bind_exn_Inr: "bind_exn m f = Inr y \<longleftrightarrow> (\<exists>x. m = Inr x \<and> f x = Inr y)"
  by (cases m) auto

lemma get_values_Inr:
  assumes "get_values r = Inr c"
  shows "strip_cell (row_get r ''code'' (Some '''')) = Inr (v_code c)"
    and "strip_cell (row_get r ''name'' (Some '''')) = Inr (v_name c)"
    and "strip_cell (row_get r ''category'' (Some '''')) = Inr (v_category_name c)"
    and "strip_cell (row_get r ''price'' (Some ''0'')) = Inr (v_price_str c)"
    and "strip_cell (row_get r ''uom'' (row_get r ''unit'' (Some ''''))) = Inr (v_uom_name c)"
    and "strip_cell (row_get r ''supplier'' (Some '''')) = Inr (v_supplier_name c)"
    and "strip_cell (row_get r ''date'' (Some '''')) = Inr (v_date_str c)"
  using assms unfolding get_values_def bind_exn_Inr by auto

lemma import_row_created:
  "import_row_body E (store st) (row_num st + 1) r = Inr (Created d') \<Longrightarrow>
   import_row E st r = st\<lparr>row_num := row_num st + 1, created := created st + 1, store := d'\<rparr>"
  by (simp add: import_row_def Let_def)

lemma import_row_updated:
  "import_row_body E (store st) (row_num st + 1) r = Inr (Updated d') \<Longrightarrow>
   import_row E st r = st\<lparr>row_num := row_num st + 1, updated := updated st + 1, store := d'\<rparr>"
  by (simp add: import_row_def Let_def)

lemma import_rows_append:
  "import_rows E st (xs @ ys) = import_rows E (import_rows E st xs) ys"
  by (simp add: import_rows_def)

lemma import_rows_Cons:
  "import_rows E st (r # rs) = import_rows E (import_row E st r) rs"
  by (simp add: import_rows_def)

lemma import_rows_Nil: "import_rows E st [] = st"
  by (simp add: import_rows_def)

lemma row_num_import_row: "row_num (import_row E st r) = row_num st + 1"
  by (simp add: import_row_def Let_def split: sum.splits outcome.splits)

lemma row_num_import_rows: "row_num (import_rows E st rs) = row_num st + length rs"
  by (induction rs arbitrary: st) (simp_all add: import_rows_Nil import_rows_Cons row_num_import_row)

lemma import_row_count:
  "length (errors (import_row E st r)) + created (import_row E st r) + updated (import_row E st r)
     = length (errors st) + created st + updated st + 1"
  by (simp add: import_row_def Let_def split: sum.splits outcome.splits)

lemma import_rows_count:
  "length (errors (import_rows E st rs)) + created (import_rows E st rs)
     + updated (import_rows E st rs)
     = length (errors st) + created st + updated st + length rs"
proof (induction rs arbitrary: st)
  case Nil
  then show ?case by (simp add: import_rows_Nil)
next
  case (Cons r rs)
  show ?case
    using Cons.IH [of "import_row E st r"] import_row_count [of E st r]
    by (simp add: import_rows_Cons)
qed

lemma import_row_data:
  assumes "created s = created t" and "updated s = updated t" and "store s = store t"
  shows "created (import_row E s r) = created (import_row E t r)
       \<and> updated (import_row E s r) = updated (import_row E t r)
       \<and> store (import_row E s r) = store (import_row E t r)"
proof (cases "row_failure E (store s) r")
  case (Some msg)
  with assms import_row_failure [of E s r msg] import_row_failure [of E t r msg]
  show ?thesis by simp
next
  case None
  from row_failure_None [OF None] obtain c p u where
    h: "get_values r = Inr c" "v_name c \<noteq> []" "v_uom_name c \<noteq> []"
       "float_of E (replace_comma (v_price_str c)) = Some p"
       "get_uom E (store s) (v_uom_name c) = Some u"
    by blast
  have eq: "import_row_body E (store t) (row_num t + 1) r
              = import_row_body E (store s) (row_num s + 1) r"
    using import_row_body_num [OF h, of "row_num t + 1" "row_num s + 1"] assms by simp
  from import_row_body_success [OF None, of "row_num s + 1"] obtain d' where
    "import_row_body E (store s) (row_num s + 1) r = Inr (Created d')
     \<or> import_row_body E (store s) (row_num s + 1) r = Inr (Updated d')"
    by blast
  then show ?thesis
    using eq assms by (auto simp: import_row_def Let_def)
qed

lemma import_rows_data:
  assumes "created s = created t" and "updated s = updated t" and "store s = store t"
  shows "created (import_rows E s rs) = created (import_rows E t rs)
       \<and> updated (import_rows E s rs) = updated (import_rows E t rs)
       \<and> store (import_rows E s rs) = store (import_rows E t rs)"
  using assms
proof (induction rs arbitrary: s t)
  case Nil
  then show ?case by (simp add: import_rows_Nil)
next
  case (Cons r rs)
  from import_row_data [OF Cons.prems, of E r]
  show ?case
    using Cons.IH [of "import_row E s r" "import_row E t r"]
    by (simp add: import_rows_Cons)
qed

lemma errors_import_row_prefix:
  "\<exists>es. errors (import_row E st r) = errors st @ es"
  by (simp add: import_row_def Let_def split: sum.splits outcome.splits)

lemma errors_import_rows_prefix:
  "\<exists>es. errors (import_rows E st rs) = errors st @ es"
proof (induction rs arbitrary: st)
  case Nil
  then show ?case by (simp add: import_rows_Nil)
next
  case (Cons r rs)
  from errors_import_row_prefix [of E st r] obtain e1 where
    a: "errors (import_row E st r) = errors st @ e1" by blast
  from Cons.IH [of "import_row E st r"] obtain e2 where
    b: "errors (import_rows E (import_row E st r) rs) = errors (import_row E st r) @ e2" by blast
  from a b show ?case by (simp add: import_rows_Cons)
qed

lemma write_ingredient_length: "length (write_ingredient i v tbl) = length tbl"
  by (simp add: write_ingredient_def)

lemma write_ingredient_nth:
  "k < length tbl \<Longrightarrow>
   write_ingredient i v tbl ! k
     = (if ident (tbl ! k) = ident i then write_vals v (tbl ! k) else tbl ! k)"
  by (simp add: write_ingredient_def)

lemma find_SomeD: "find P xs = Some x \<Longrightarrow> x \<in> set xs \<and> P x"
  by (auto simp: find_Some_iff)

lemma write_ingredient_fresh:
  "\<forall>x \<in> set tbl. ident x \<noteq> ident i \<Longrightarrow>
   write_ingredient i v (tbl @ [i]) = tbl @ [write_vals v i]"
  by (auto simp: write_ingredient_def intro: map_idI)

text \<open>The state after a row that passes validation.\<close>

lemma import_row_valid:
  assumes "get_values r = Inr c" and "v_name c \<noteq> []" and "v_uom_name c \<noteq> []"
    and "float_of E (replace_comma (v_price_str c)) = Some p"
    and "get_uom E (store st) (v_uom_name c) = Some u"
  shows "\<exists>d2 v. ingredients d2 = ingredients (store st) \<and> uoms d2 = uoms (store st)
           \<and> vals_name v = v_name c \<and> vals_price v = p \<and> vals_uom_id v = u
           \<and> vals_price_date v
               = (case parse_date E (v_date_str c) of Some dt \<Rightarrow> dt | None \<Rightarrow> today E)
           \<and> vals_code v = (if v_code c \<noteq> [] then Some (v_code c) else None)
           \<and> (v_category_name c = [] \<longrightarrow> vals_category_id v = None)
           \<and> (v_supplier_name c = [] \<longrightarrow> vals_supplier_id v = None)
           \<and> import_row E st r =
               (case (case (if v_code c \<noteq> []
                            then find (\<lambda>i. code i = Some (v_code c)) (ingredients (store st))
                            else None) of
                        Some i \<Rightarrow> Some i
                      | None \<Rightarrow> find (\<lambda>i. ilike E (v_name c) (name i)) (ingredients (store st))) of
                  Some i \<Rightarrow>
                    st\<lparr>row_num := row_num st + 1, updated := updated st + 1,
                       store := d2\<lparr>ingredients := write_ingredient i v (ingredients (store st))\<rparr>\<rparr>
                | None \<Rightarrow>
                    st\<lparr>row_num := row_num st + 1, created := created st + 1,
                       store := d2\<lparr>ingredients := create_ingredient v (ingredients (store st))\<rparr>\<rparr>)"
proof -
  from import_row_body_valid [OF assms, of "row_num st + 1"] obtain d2 v where
    h: "ingredients d2 = ingredients (store st)" "uoms d2 = uoms (store st)"
       "vals_name v = v_name c" "vals_price v = p" "vals_uom_id v = u"
       "vals_price_date v
               = (case parse_date E (v_date_str c) of Some dt \<Rightarrow> dt | None \<Rightarrow> today E)"
       "vals_code v = (if v_code c \<noteq> [] then Some (v_code c) else None)"
       "v_category_name c = [] \<longrightarrow> vals_category_id v = None"
       "v_supplier_name c = [] \<longrightarrow> vals_supplier_id v = None"
    and b: "import_row_body E (store st) (row_num st + 1) r =
               (case (if v_code c \<noteq> []
                      then find (\<lambda>i. code i = Some (v_code c)) (ingredients (store st))
                      else None) of
                  Some i \<Rightarrow>
                    Inr (Updated (d2\<lparr>ingredients := write_ingredient i v (ingredients (store st))\<rparr>))
                | None \<Rightarrow>
                    (case find (\<lambda>i. ilike E (v_name c) (name i)) (ingredients (store st)) of
                       Some i \<Rightarrow>
                         Inr (Updated (d2\<lparr>ingredients :=
                                write_ingredient i v (ingredients (store st))\<rparr>))
                     | None \<Rightarrow>
                         Inr (Created (d2\<lparr>ingredients :=
                                create_ingredient v (ingredients (store st))\<rparr>))))"
    by blast
  have "import_row E st r =
               (case (case (if v_code c \<noteq> []
                            then find (\<lambda>i. code i = Some (v_code c)) (ingredients (store st))
                            else None) of
                        Some i \<Rightarrow> Some i
                      | None \<Rightarrow> find (\<lambda>i. ilike E (v_name c) (name i)) (ingredients (store st))) of
                  Some i \<Rightarrow>
                    st\<lparr>row_num := row_num st + 1, updated := updated st + 1,
                       store := d2\<lparr>ingredients := write_ingredient i v (ingredients (store st))\<rparr>\<rparr>
                | None \<Rightarrow>
                    st\<lparr>row_num := row_num st + 1, created := created st + 1,
                       store := d2\<lparr>ingredients := create_ingredient v (ingredients (store st))\<rparr>\<rparr>)"
    using b by (auto simp: import_row_def Let_def split: option.splits)
  with h show ?thesis by blast
qed

lemma upsert_row:
  assumes "get_values r = Inr c" and "v_name c \<noteq> []" and "v_uom_name c \<noteq> []"
    and "float_of E (replace_comma (v_price_str c)) = Some p"
    and "get_uom E (store st) (v_uom_name c) = Some u"
    and "by_code = (if v_code c \<noteq> []
                    then find (\<lambda>i. code i = Some (v_code c)) (ingredients (store st))
                    else None)"
    and "by_name = find (\<lambda>i. ilike E (v_name c) (name i)) (ingredients (store st))"
    and "found = (case by_code of Some i \<Rightarrow> Some i | None \<Rightarrow> by_name)"
    and "st' = import_row E st r"
  shows "errors st' = errors st \<and> row_num st' = row_num st + 1
       \<and> (\<forall>i. found = Some i \<longrightarrow>
             i \<in> set (ingredients (store st))
           \<and> updated st' = updated st + 1 \<and> created st' = created st
           \<and> (\<exists>v. vals_name v = v_name c \<and> vals_price v = p \<and> vals_uom_id v = u
                  \<and> vals_code v = (if v_code c \<noteq> [] then Some (v_code c) else None)
                  \<and> ingredients (store st') = write_ingredient i v (ingredients (store st))))
       \<and> (found = None \<longrightarrow>
             created st' = created st + 1 \<and> updated st' = updated st
           \<and> (\<exists>v. vals_name v = v_name c \<and> vals_price v = p \<and> vals_uom_id v = u
                  \<and> vals_code v = (if v_code c \<noteq> [] then Some (v_code c) else None)
                  \<and> ingredients (store st') = create_ingredient v (ingredients (store st))))"
proof -
  from import_row_valid [OF assms(1-5)] obtain d2 v where
    h: "vals_name v = v_name c" "vals_price v = p" "vals_uom_id v = u"
       "vals_code v = (if v_code c \<noteq> [] then Some (v_code c) else None)"
    and b: "st' = (case found of
                  Some i \<Rightarrow>
                    st\<lparr>row_num := row_num st + 1, updated := updated st + 1,
                       store := d2\<lparr>ingredients := write_ingredient i v (ingredients (store st))\<rparr>\<rparr>
                | None \<Rightarrow>
                    st\<lparr>row_num := row_num st + 1, created := created st + 1,
                       store := d2\<lparr>ingredients := create_ingredient v (ingredients (store st))\<rparr>\<rparr>)"
    unfolding assms(6-9) by blast
  have mem: "\<forall>i. found = Some i \<longrightarrow> i \<in> set (ingredients (store st))"
    unfolding assms(6-8) by (auto split: option.splits if_splits dest: find_SomeD)
  show ?thesis
  proof (cases found)
    case None
    with b h show ?thesis by auto
  next
    case (Some i)
    with b h mem show ?thesis by auto
  qed
qed

lemma upsert_same_code:
  assumes "get_values r1 = Inr c1" and "v_name c1 \<noteq> []" and "v_uom_name c1 \<noteq> []"
    and "float_of E (replace_comma (v_price_str c1)) = Some p1"
    and "get_uom E (store st) (v_uom_name c1) = Some u1"
    and "get_values r2 = Inr c2" and "v_name c2 \<noteq> []" and "v_uom_name c2 \<noteq> []"
    and "float_of E (replace_comma (v_price_str c2)) = Some p2"
    and "get_uom E (store st) (v_uom_name c2) = Some u2"
    and "v_code c2 = v_code c1" and "v_code c1 \<noteq> []"
    and "find (\<lambda>i. code i = Some (v_code c1)) (ingredients (store st)) = None"
    and "find (\<lambda>i. ilike E (v_name c1) (name i)) (ingredients (store st)) = None"
    and "st2 = import_rows E st [r1, r2]"
  shows "created st2 = created st + 1 \<and> updated st2 = updated st + 1
       \<and> errors st2 = errors st
       \<and> (\<exists>x. ingredients (store st2) = ingredients (store st) @ [x]
              \<and> name x = v_name c2 \<and> code x = Some (v_code c1)
              \<and> price x = p2 \<and> uom_id x = Some u2)"
proof -
  let ?tbl = "ingredients (store st)"
  from import_row_valid [OF assms(1-5)] assms(12-14) obtain d2 v1 where
    v1: "vals_code v1 = Some (v_code c1)"
    and d2: "uoms d2 = uoms (store st)"
    and s1: "import_row E st r1
              = st\<lparr>row_num := row_num st + 1, created := created st + 1,
                   store := d2\<lparr>ingredients := create_ingredient v1 ?tbl\<rparr>\<rparr>"
    by auto
  let ?st1 = "import_row E st r1"
  obtain new1 where new1: "create_ingredient v1 ?tbl = ?tbl @ [new1]"
    and code1: "code new1 = Some (v_code c1)"
    and id1: "ident new1 = next_id (map ident ?tbl)"
    using v1 by (simp add: create_ingredient_def write_vals_def)
  have tbl1: "ingredients (store ?st1) = ?tbl @ [new1]"
    using s1 new1 by simp
  have uom2: "get_uom E (store ?st1) (v_uom_name c2) = Some u2"
    using assms(10) get_uom_cong [of "store ?st1" "store st" E "v_uom_name c2"] s1 d2 by simp
  have found2: "find (\<lambda>i. code i = Some (v_code c2)) (ingredients (store ?st1)) = Some new1"
    using assms(11,13) code1 tbl1 by (simp add: find_append)
  from import_row_valid [OF assms(6-9) uom2] found2 assms(11,12) obtain d3 v2 where
    v2: "vals_name v2 = v_name c2" "vals_price v2 = p2" "vals_uom_id v2 = u2"
        "vals_code v2 = Some (v_code c1)"
    and s2: "import_row E ?st1 r2
              = ?st1\<lparr>row_num := row_num ?st1 + 1, updated := updated ?st1 + 1,
                     store := d3\<lparr>ingredients := write_ingredient new1 v2 (?tbl @ [new1])\<rparr>\<rparr>"
    unfolding tbl1 by auto
  have fresh: "\<forall>x \<in> set ?tbl. ident x \<noteq> ident new1"
    using next_id_fresh [of _ "map ident ?tbl"] id1 by fastforce
  have w: "write_ingredient new1 v2 (?tbl @ [new1]) = ?tbl @ [write_vals v2 new1]"
    by (rule write_ingredient_fresh [OF fresh])
  have st2: "st2 = import_row E ?st1 r2"
    using assms(15) by (simp add: import_rows_def)
  have fields: "name (write_vals v2 new1) = v_name c2 \<and> code (write_vals v2 new1) = Some (v_code c1)
       \<and> price (write_vals v2 new1) = p2 \<and> uom_id (write_vals v2 new1) = Some u2"
    using v2 by (simp add: write_vals_def)
  have "created st2 = created st + 1 \<and> updated st2 = updated st + 1 \<and> errors st2 = errors st
        \<and> ingredients (store st2) = ?tbl @ [write_vals v2 new1]"
    unfolding st2 s2 w by (simp add: s1)
  with fields show ?thesis by blast
qed

lemma replace_comma_no_comma: "CHR '','' \<notin> set (replace_comma s)"
  by (auto simp: replace_comma_def)


lemma UOM_MAPPING_keys:
  "dom (map_of UOM_MAPPING)
     = {''kg'', ''kilo'', ''kilogram'', ''g'', ''gram'', ''l'', ''liter'', ''litre'',
        ''ml'', ''milliliter'', ''millilitre'', ''unit'', ''units'', ''pcs'', ''piece'',
        ''dozen''}"
  unfolding UOM_MAPPING_def dom_map_of_conv_image_fst by simp

lemma UOM_MAPPING_kg:
  "map_of UOM_MAPPING ''kg'' = Some ''uom.product_uom_kgm''
   \<and> map_of UOM_MAPPING ''kilo'' = Some ''uom.product_uom_kgm''
   \<and> map_of UOM_MAPPING ''kilogram'' = Some ''uom.product_uom_kgm''
   \<and> map_of UOM_MAPPING ''g'' = Some ''uom.product_uom_gram''
   \<and> map_of UOM_MAPPING ''gram'' = Some ''uom.product_uom_gram''
   \<and> map_of UOM_MAPPING ''l'' = Some ''uom.product_uom_litre''
   \<and> map_of UOM_MAPPING ''liter'' = Some ''uom.product_uom_litre''
   \<and> map_of UOM_MAPPING ''litre'' = Some ''uom.product_uom_litre''
   \<and> map_of UOM_MAPPING ''ml'' = Some ''uom.product_uom_millilitre''
   \<and> map_of UOM_MAPPING ''milliliter'' = Some ''uom.product_uom_millilitre''
   \<and> map_of UOM_MAPPING ''millilitre'' = Some ''uom.product_uom_millilitre''
   \<and> map_of UOM_MAPPING ''unit'' = Some ''uom.product_uom_unit''
   \<and> map_of UOM_MAPPING ''units'' = Some ''uom.product_uom_unit''
   \<and> map_of UOM_MAPPING ''pcs'' = Some ''uom.product_uom_unit''
   \<and> map_of UOM_MAPPING ''piece'' = Some ''uom.product_uom_unit''
   \<and> map_of UOM_MAPPING ''dozen'' = Some ''uom.product_uom_dozen''"
  unfolding UOM_MAPPING_def by simp

lemma get_uom_synonym:
  "s \<noteq> [] \<Longrightarrow> map_of UOM_MAPPING (strip (lower s)) = Some x \<Longrightarrow> ref E x = Some u \<Longrightarrow>
   get_uom E d s = Some u"
  by (simp add: get_uom_def)

lemma get_uom_fallback:
  "s \<noteq> [] \<Longrightarrow>
   map_of UOM_MAPPING (strip (lower s)) = None
     \<or> (\<exists>x. map_of UOM_MAPPING (strip (lower s)) = Some x \<and> ref E x = None) \<Longrightarrow>
   get_uom E d s = map_option uom_ident (find (\<lambda>u. ilike E s (uom_name u)) (uoms d))"
  by (auto simp: get_uom_def)

lemma Kg_lower: "map_of UOM_MAPPING (strip (lower ''Kg'')) = Some ''uom.product_uom_kgm''"
  by (simp add: UOM_MAPPING_def strip_def lower_def lower_char_def is_space_def)

lemma unknown_uom_row:
  assumes "get_values r = Inr c" and "v_name c \<noteq> []" and "v_uom_name c \<noteq> []"
    and "float_of E (replace_comma (v_price_str c)) = Some p"
    and "get_uom E (store st) (v_uom_name c) = None"
  shows "import_row E st r
          = st\<lparr>row_num := row_num st + 1,
               errors := errors st @ [''Row '' @ str_nat (row_num st + 1)
                 @ '': Unknown UoM '' @ [CHR 0x27] @ v_uom_name c @ [CHR 0x27]]\<rparr>"
  using assms by (simp add: import_row_def import_row_body_def Let_def)

lemmas row_eval = dict_row_def get_values_def row_get_def strip_cell_def strip_def is_space_def

lemma values_sugar:
  "get_values row_sugar
     = Inr \<lparr>v_code = ''S01'', v_name = ''Sugar'', v_category_name = [], v_price_str = ''12,50'',
            v_uom_name = ''Kg'', v_supplier_name = [], v_date_str = []\<rparr>"
  by (simp add: row_sugar_def row_eval)

lemma values_cane:
  "get_values row_cane
     = Inr \<lparr>v_code = ''S01'', v_name = ''Cane sugar'', v_category_name = [],
            v_price_str = ''13'', v_uom_name = ''kg'', v_supplier_name = [], v_date_str = []\<rparr>"
  by (simp add: row_cane_def row_eval)

lemma values_no_price:
  "get_values row_no_price
     = Inr \<lparr>v_code = [], v_name = ''flour'', v_category_name = [], v_price_str = ''0'',
            v_uom_name = ''kg'', v_supplier_name = [], v_date_str = []\<rparr>"
  by (simp add: row_no_price_def row_eval)

lemma values_no_uom:
  "get_values row_no_uom
     = Inr \<lparr>v_code = [], v_name = ''Salt'', v_category_name = [], v_price_str = ''1'',
            v_uom_name = [], v_supplier_name = [], v_date_str = []\<rparr>"
  by (simp add: row_no_uom_def row_eval)

lemma values_short:
  "get_values row_short
     = Inl (AttributeError ([CHR 0x27] @ ''NoneType'' @ [CHR 0x27]
                 @ '' object has no attribute '' @ [CHR 0x27] @ ''strip'' @ [CHR 0x27]))"
  by (simp add: row_short_def row_eval)

lemma values_bad_price:
  "get_values row_bad_price
     = Inr \<lparr>v_code = [], v_name = ''Salt'', v_category_name = [], v_price_str = ''abc'',
            v_uom_name = ''kg'', v_supplier_name = [], v_date_str = []\<rparr>"
  by (simp add: row_bad_price_def row_eval)

lemma values_bad_unit:
  "get_values row_bad_unit
     = Inr \<lparr>v_code = [], v_name = ''Salt'', v_category_name = [], v_price_str = ''1'',
            v_uom_name = ''bushel'', v_supplier_name = [], v_date_str = []\<rparr>"
  by (simp add: row_bad_unit_def row_eval)

lemma E0_prices:
  "float_of E0 (replace_comma ''12,50'') = Some 12.5"
  "float_of E0 (replace_comma ''13'') = Some 13"
  "float_of E0 (replace_comma ''0'') = Some 0"
  "float_of E0 (replace_comma ''1'') = Some 1"
  "float_of E0 (replace_comma ''abc'') = None"
  by (simp_all add: E0_def replace_comma_def py_float_eval)

lemmas uom_eval = get_uom_def UOM_MAPPING_def strip_def lower_def lower_char_def is_space_def

lemma E0_uoms:
  "get_uom E0 d ''Kg'' = Some 1"
  "get_uom E0 d ''kg'' = Some 1"
  by (simp_all add: uom_eval E0_def)

lemma E0_bushel: "get_uom E0 db0 ''bushel'' = None"
  by (simp add: uom_eval E0_def db0_def)

lemma E0_sel:
  "ilike E0 p v = (lower p = lower v)"
  "today E0 = Date 2026 11 4"
  "strptime E0 = strptime_iso"
  "ref E0 = map_of [(''uom.product_uom_kgm'', 1), (''uom.product_uom_gram'', 2),
                    (''uom.product_uom_unit'', 3)]"
  by (simp_all add: E0_def)

lemmas body_eval = import_row_def import_row_body_def init_state_def db0_def flour_def
  parse_date_def E0_sel lower_def lower_char_def write_ingredient_def write_vals_def
  create_ingredient_def next_id_def Let_def str_nat.simps digit_char_def

lemma run_sugar:
  "import_row E0 (init_state db0) row_sugar
     = \<lparr>created = 1, updated = 0, errors = [], row_num = 2,
        store = db0\<lparr>ingredients := [flour, sugar]\<rparr>\<rparr>"
  by (simp add: body_eval values_sugar E0_prices E0_uoms sugar_def)

lemma run_no_price:
  "import_row E0 (init_state db0) row_no_price
     = \<lparr>created = 0, updated = 1, errors = [], row_num = 2,
        store = db0\<lparr>ingredients :=
          [flour\<lparr>name := ''flour'', price := 0, price_date := Some (Date 2026 11 4)\<rparr>]\<rparr>\<rparr>"
  by (simp add: body_eval values_no_price E0_prices E0_uoms)

section \<open>The importer\<close>

text \<open>
  C4. A row that passes validation (its cells read, name and unit present, price parsed,
  unit resolved) is looked up by exact code when it has a code, and by the ORM's
  \<open>=ilike\<close> on the name only when the code search finds nothing. A found ingredient is
  overwritten with the row's values and \<open>updated\<close> grows by one; otherwise an ingredient
  is created and \<open>created\<close> grows by one. When such a row creates an ingredient and has a
  code, a second valid row with the same code, whatever its name, updates that
  ingredient: \<open>created\<close> and \<open>updated\<close> have each grown by one and the table by one row,
  which carries the second row's name.
\<close>

theorem import_upsert:
  assumes "get_values r = Inr c" and "v_name c \<noteq> []" and "v_uom_name c \<noteq> []"
    and "float_of E (replace_comma (v_price_str c)) = Some p"
    and "get_uom E (store st) (v_uom_name c) = Some u"
    and "by_code = (if v_code c \<noteq> []
                    then find (\<lambda>i. code i = Some (v_code c)) (ingredients (store st))
                    else None)"
    and "by_name = find (\<lambda>i. ilike E (v_name c) (name i)) (ingredients (store st))"
    and "found = (case by_code of Some i \<Rightarrow> Some i | None \<Rightarrow> by_name)"
    and "st' = import_row E st r"
  shows "errors st' = errors st \<and> row_num st' = row_num st + 1
       \<and> (\<forall>i. found = Some i \<longrightarrow>
             i \<in> set (ingredients (store st))
           \<and> updated st' = updated st + 1 \<and> created st' = created st
           \<and> (\<exists>v. vals_name v = v_name c \<and> vals_price v = p \<and> vals_uom_id v = u
                  \<and> vals_code v = (if v_code c \<noteq> [] then Some (v_code c) else None)
                  \<and> ingredients (store st') = write_ingredient i v (ingredients (store st))
                  \<and> write_vals v i \<in> set (ingredients (store st'))
                  \<and> name (write_vals v i) = v_name c \<and> price (write_vals v i) = p
                  \<and> uom_id (write_vals v i) = Some u))
       \<and> (found = None \<longrightarrow>
             created st' = created st + 1 \<and> updated st' = updated st
           \<and> (\<exists>v. vals_name v = v_name c \<and> vals_price v = p \<and> vals_uom_id v = u
                  \<and> vals_code v = (if v_code c \<noteq> [] then Some (v_code c) else None)
                  \<and> ingredients (store st') = create_ingredient v (ingredients (store st))))
       \<and> (found = None \<and> v_code c \<noteq> []
            \<and> get_values r2 = Inr c2 \<and> v_code c2 = v_code c
            \<and> v_name c2 \<noteq> [] \<and> v_uom_name c2 \<noteq> []
            \<and> float_of E (replace_comma (v_price_str c2)) = Some p2
            \<and> get_uom E (store st) (v_uom_name c2) = Some u2
            \<and> st2 = import_row E st' r2 \<longrightarrow>
              created st2 = created st + 1 \<and> updated st2 = updated st + 1
            \<and> errors st2 = errors st
            \<and> (\<exists>x. ingredients (store st2) = ingredients (store st) @ [x]
                   \<and> name x = v_name c2 \<and> code x = Some (v_code c)
                   \<and> price x = p2 \<and> uom_id x = Some u2))"
proof -
  note one = upsert_row [OF assms]
  have upd: "\<forall>i. found = Some i \<longrightarrow>
             i \<in> set (ingredients (store st))
           \<and> updated st' = updated st + 1 \<and> created st' = created st
           \<and> (\<exists>v. vals_name v = v_name c \<and> vals_price v = p \<and> vals_uom_id v = u
                  \<and> vals_code v = (if v_code c \<noteq> [] then Some (v_code c) else None)
                  \<and> ingredients (store st') = write_ingredient i v (ingredients (store st))
                  \<and> write_vals v i \<in> set (ingredients (store st'))
                  \<and> name (write_vals v i) = v_name c \<and> price (write_vals v i) = p
                  \<and> uom_id (write_vals v i) = Some u)"
  proof (intro allI impI)
    fix i assume f: "found = Some i"
    with one obtain v where
      m: "i \<in> set (ingredients (store st))"
      and k: "updated st' = updated st + 1" "created st' = created st"
      and v: "vals_name v = v_name c" "vals_price v = p" "vals_uom_id v = u"
        "vals_code v = (if v_code c \<noteq> [] then Some (v_code c) else None)"
      and w: "ingredients (store st') = write_ingredient i v (ingredients (store st))"
      by blast
    have "write_vals v i \<in> set (ingredients (store st'))"
      using m w by (auto simp: write_ingredient_def)
    moreover have "name (write_vals v i) = v_name c \<and> price (write_vals v i) = p
                  \<and> uom_id (write_vals v i) = Some u"
      using v by (simp add: write_vals_def)
    ultimately show "i \<in> set (ingredients (store st))
           \<and> updated st' = updated st + 1 \<and> created st' = created st
           \<and> (\<exists>v. vals_name v = v_name c \<and> vals_price v = p \<and> vals_uom_id v = u
                  \<and> vals_code v = (if v_code c \<noteq> [] then Some (v_code c) else None)
                  \<and> ingredients (store st') = write_ingredient i v (ingredients (store st))
                  \<and> write_vals v i \<in> set (ingredients (store st'))
                  \<and> name (write_vals v i) = v_name c \<and> price (write_vals v i) = p
                  \<and> uom_id (write_vals v i) = Some u)"
      using m k v w by blast
  qed
  have two: "created st2 = created st + 1 \<and> updated st2 = updated st + 1
            \<and> errors st2 = errors st
            \<and> (\<exists>x. ingredients (store st2) = ingredients (store st) @ [x]
                   \<and> name x = v_name c2 \<and> code x = Some (v_code c)
                   \<and> price x = p2 \<and> uom_id x = Some u2)"
    if h: "found = None" "v_code c \<noteq> []" "get_values r2 = Inr c2" "v_code c2 = v_code c"
      "v_name c2 \<noteq> []" "v_uom_name c2 \<noteq> []"
      "float_of E (replace_comma (v_price_str c2)) = Some p2"
      "get_uom E (store st) (v_uom_name c2) = Some u2" "st2 = import_row E st' r2"
  proof -
    have n1: "find (\<lambda>i. code i = Some (v_code c)) (ingredients (store st)) = None"
      and n2: "find (\<lambda>i. ilike E (v_name c) (name i)) (ingredients (store st)) = None"
      using h(1,2) assms(6-8) by (auto split: option.splits)
    have s: "st2 = import_rows E st [r, r2]"
      using h(9) assms(9) by (simp add: import_rows_def)
    show ?thesis
      by (rule upsert_same_code [OF assms(1-5) h(3,5,6,7,8) h(4) h(2) n1 n2 s])
  qed
  from one upd two show ?thesis by blast
qed

theorem import_upsert_witness:
  "get_values row_sugar
     = Inr \<lparr>v_code = ''S01'', v_name = ''Sugar'', v_category_name = [], v_price_str = ''12,50'',
            v_uom_name = ''Kg'', v_supplier_name = [], v_date_str = []\<rparr>
   \<and> get_values row_cane
     = Inr \<lparr>v_code = ''S01'', v_name = ''Cane sugar'', v_category_name = [],
            v_price_str = ''13'', v_uom_name = ''kg'', v_supplier_name = [], v_date_str = []\<rparr>
   \<and> created (import_row E0 (init_state db0) row_sugar) = 1
   \<and> updated (import_row E0 (init_state db0) row_sugar) = 0
   \<and> created (import_row E0 (import_row E0 (init_state db0) row_sugar) row_cane) = 1
   \<and> updated (import_row E0 (import_row E0 (init_state db0) row_sugar) row_cane) = 1
   \<and> (\<exists>x. ingredients (store (import_row E0 (import_row E0 (init_state db0) row_sugar) row_cane))
            = [flour, x]
          \<and> name x = ''Cane sugar'' \<and> code x = Some ''S01'' \<and> price x = 13
          \<and> uom_id x = Some 1)"
proof -
  let ?c = "\<lparr>v_code = ''S01'', v_name = ''Sugar'', v_category_name = [], v_price_str = ''12,50'',
            v_uom_name = ''Kg'', v_supplier_name = [], v_date_str = []\<rparr>"
  let ?c2 = "\<lparr>v_code = ''S01'', v_name = ''Cane sugar'', v_category_name = [],
            v_price_str = ''13'', v_uom_name = ''kg'', v_supplier_name = [], v_date_str = []\<rparr>"
  have nf: "(case (if v_code ?c \<noteq> []
                   then find (\<lambda>i. code i = Some (v_code ?c)) (ingredients (store (init_state db0)))
                   else None) of
              Some i \<Rightarrow> Some i
            | None \<Rightarrow> find (\<lambda>i. ilike E0 (v_name ?c) (name i))
                        (ingredients (store (init_state db0)))) = None"
    by (simp add: init_state_def db0_def flour_def E0_sel lower_def lower_char_def)
  have p1: "float_of E0 (replace_comma (v_price_str ?c)) = Some 12.5"
    and p2: "float_of E0 (replace_comma (v_price_str ?c2)) = Some 13"
    by (simp_all add: E0_prices)
  have u1: "get_uom E0 (store (init_state db0)) (v_uom_name ?c) = Some 1"
    and u2: "get_uom E0 (store (init_state db0)) (v_uom_name ?c2) = Some 1"
    by (simp_all add: E0_uoms)
  from import_upsert [OF values_sugar _ _ p1 u1 refl refl refl refl,
      where ?r2.0 = row_cane and ?c2.0 = ?c2 and ?p2.0 = 13 and ?u2.0 = 1
        and ?st2.0 = "import_row E0 (import_row E0 (init_state db0) row_sugar) row_cane"]
    nf values_cane p2 u2
  have "created (import_row E0 (init_state db0) row_sugar) = 1
   \<and> updated (import_row E0 (init_state db0) row_sugar) = 0
   \<and> created (import_row E0 (import_row E0 (init_state db0) row_sugar) row_cane) = 1
   \<and> updated (import_row E0 (import_row E0 (init_state db0) row_sugar) row_cane) = 1
   \<and> (\<exists>x. ingredients (store (import_row E0 (import_row E0 (init_state db0) row_sugar) row_cane))
            = [flour, x]
          \<and> name x = ''Cane sugar'' \<and> code x = Some ''S01'' \<and> price x = 13
          \<and> uom_id x = Some 1)"
    by (auto simp: init_state_def db0_def)
  with values_sugar values_cane show ?thesis by blast
qed

text \<open>
  C5, as the code has it. When a row updates an ingredient, \<open>write\<close> leaves its code,
  category and supplier as they are when the row gives no (non-empty) value for them, never
  touches \<open>active\<close>, the notes or the id, and leaves every other ingredient as it is;
  name, price, unit and price date are always written. The price written is what the
  price cell parses to, and the cell of a row with no price column is \<open>"0"\<close>; the date
  written is today's when the date cell is empty, absent or in none of the formats. A
  created ingredient has the model's defaults for what the row did not give.
\<close>

theorem import_update_frame:
  assumes "get_values r = Inr c" and "v_name c \<noteq> []" and "v_uom_name c \<noteq> []"
    and "float_of E (replace_comma (v_price_str c)) = Some p"
    and "get_uom E (store st) (v_uom_name c) = Some u"
    and "found = (case (if v_code c \<noteq> []
                        then find (\<lambda>i. code i = Some (v_code c)) (ingredients (store st))
                        else None) of
                    Some i \<Rightarrow> Some i
                  | None \<Rightarrow> find (\<lambda>i. ilike E (v_name c) (name i)) (ingredients (store st)))"
    and "old = ingredients (store st)" and "new = ingredients (store (import_row E st r))"
    and "written_date = (case parse_date E (v_date_str c) of Some dt \<Rightarrow> dt | None \<Rightarrow> today E)"
  shows "(\<forall>i. found = Some i \<longrightarrow> length new = length old
            \<and> (\<forall>k < length old.
                  ident (new ! k) = ident (old ! k)
                \<and> active (new ! k) = active (old ! k)
                \<and> ingredient_notes (new ! k) = ingredient_notes (old ! k)
                \<and> (v_code c = [] \<longrightarrow> code (new ! k) = code (old ! k))
                \<and> (v_category_name c = [] \<longrightarrow> category_id (new ! k) = category_id (old ! k))
                \<and> (v_supplier_name c = [] \<longrightarrow> supplier_id (new ! k) = supplier_id (old ! k))
                \<and> (ident (old ! k) \<noteq> ident i \<longrightarrow> new ! k = old ! k)
                \<and> (ident (old ! k) = ident i \<longrightarrow>
                      name (new ! k) = v_name c \<and> price (new ! k) = p
                    \<and> uom_id (new ! k) = Some u \<and> price_date (new ! k) = Some written_date)))
       \<and> (found = None \<longrightarrow>
            (\<exists>x. new = old @ [x] \<and> active x \<and> ingredient_notes x = None
                \<and> (v_code c = [] \<longrightarrow> code x = None)
                \<and> (v_category_name c = [] \<longrightarrow> category_id x = None)
                \<and> (v_supplier_name c = [] \<longrightarrow> supplier_id x = None)
                \<and> name x = v_name c \<and> price x = p \<and> uom_id x = Some u
                \<and> price_date x = Some written_date))
       \<and> (r ''price'' = None \<longrightarrow> float_of E ''0'' = Some p)
       \<and> (r ''date'' = None \<or> v_date_str c = [] \<longrightarrow> written_date = today E)"
proof -
  from import_row_valid [OF assms(1-5)] obtain d2 v where
    v: "vals_name v = v_name c" "vals_price v = p" "vals_uom_id v = u"
       "vals_price_date v = written_date"
       "vals_code v = (if v_code c \<noteq> [] then Some (v_code c) else None)"
       "v_category_name c = [] \<longrightarrow> vals_category_id v = None"
       "v_supplier_name c = [] \<longrightarrow> vals_supplier_id v = None"
    and run: "import_row E st r =
               (case found of
                  Some i \<Rightarrow>
                    st\<lparr>row_num := row_num st + 1, updated := updated st + 1,
                       store := d2\<lparr>ingredients := write_ingredient i v old\<rparr>\<rparr>
                | None \<Rightarrow>
                    st\<lparr>row_num := row_num st + 1, created := created st + 1,
                       store := d2\<lparr>ingredients := create_ingredient v old\<rparr>\<rparr>)"
    unfolding assms(6,7,9) by blast
  have upd: "\<forall>i. found = Some i \<longrightarrow> length new = length old
            \<and> (\<forall>k < length old.
                  ident (new ! k) = ident (old ! k)
                \<and> active (new ! k) = active (old ! k)
                \<and> ingredient_notes (new ! k) = ingredient_notes (old ! k)
                \<and> (v_code c = [] \<longrightarrow> code (new ! k) = code (old ! k))
                \<and> (v_category_name c = [] \<longrightarrow> category_id (new ! k) = category_id (old ! k))
                \<and> (v_supplier_name c = [] \<longrightarrow> supplier_id (new ! k) = supplier_id (old ! k))
                \<and> (ident (old ! k) \<noteq> ident i \<longrightarrow> new ! k = old ! k)
                \<and> (ident (old ! k) = ident i \<longrightarrow>
                      name (new ! k) = v_name c \<and> price (new ! k) = p
                    \<and> uom_id (new ! k) = Some u \<and> price_date (new ! k) = Some written_date))"
  proof (intro allI impI)
    fix i assume f: "found = Some i"
    have n: "new = write_ingredient i v old"
      using run f assms(8) by simp
    show "length new = length old
            \<and> (\<forall>k < length old.
                  ident (new ! k) = ident (old ! k)
                \<and> active (new ! k) = active (old ! k)
                \<and> ingredient_notes (new ! k) = ingredient_notes (old ! k)
                \<and> (v_code c = [] \<longrightarrow> code (new ! k) = code (old ! k))
                \<and> (v_category_name c = [] \<longrightarrow> category_id (new ! k) = category_id (old ! k))
                \<and> (v_supplier_name c = [] \<longrightarrow> supplier_id (new ! k) = supplier_id (old ! k))
                \<and> (ident (old ! k) \<noteq> ident i \<longrightarrow> new ! k = old ! k)
                \<and> (ident (old ! k) = ident i \<longrightarrow>
                      name (new ! k) = v_name c \<and> price (new ! k) = p
                    \<and> uom_id (new ! k) = Some u \<and> price_date (new ! k) = Some written_date))"
      unfolding n using v
      by (simp add: write_ingredient_length write_ingredient_nth write_vals_def)
  qed
  have cr: "found = None \<longrightarrow>
            (\<exists>x. new = old @ [x] \<and> active x \<and> ingredient_notes x = None
                \<and> (v_code c = [] \<longrightarrow> code x = None)
                \<and> (v_category_name c = [] \<longrightarrow> category_id x = None)
                \<and> (v_supplier_name c = [] \<longrightarrow> supplier_id x = None)
                \<and> name x = v_name c \<and> price x = p \<and> uom_id x = Some u
                \<and> price_date x = Some written_date)"
  proof
    assume f: "found = None"
    have n: "new = create_ingredient v old"
      using run f assms(8) by simp
    show "\<exists>x. new = old @ [x] \<and> active x \<and> ingredient_notes x = None
                \<and> (v_code c = [] \<longrightarrow> code x = None)
                \<and> (v_category_name c = [] \<longrightarrow> category_id x = None)
                \<and> (v_supplier_name c = [] \<longrightarrow> supplier_id x = None)
                \<and> name x = v_name c \<and> price x = p \<and> uom_id x = Some u
                \<and> price_date x = Some written_date"
      unfolding n using v by (simp add: create_ingredient_def write_vals_def)
  qed
  have pr: "r ''price'' = None \<longrightarrow> float_of E ''0'' = Some p"
  proof
    assume "r ''price'' = None"
    with get_values_Inr(4) [OF assms(1)] have "v_price_str c = ''0''"
      by (simp add: row_get_def strip_cell_def strip_def is_space_def)
    with assms(4) show "float_of E ''0'' = Some p"
      by (simp add: replace_comma_def)
  qed
  have dt: "r ''date'' = None \<or> v_date_str c = [] \<longrightarrow> written_date = today E"
  proof
    assume h: "r ''date'' = None \<or> v_date_str c = []"
    have "v_date_str c = []"
      using h get_values_Inr(7) [OF assms(1)]
      by (auto simp: row_get_def strip_cell_def strip_def)
    then show "written_date = today E"
      by (simp add: assms(9) parse_date_def)
  qed
  from upd cr pr dt show ?thesis by blast
qed

text \<open>
  Flour is stored with the code F01. The row \<open>name = flour, uom = kg\<close> has no code, price
  or date column; it updates flour, keeps its code, and writes price 0 and today's date.
\<close>

theorem import_update_frame_witness:
  "get_values row_no_price
     = Inr \<lparr>v_code = [], v_name = ''flour'', v_category_name = [], v_price_str = ''0'',
            v_uom_name = ''kg'', v_supplier_name = [], v_date_str = []\<rparr>
   \<and> float_of E0 ''0'' = Some 0
   \<and> ingredients (store (init_state db0)) = [flour]
   \<and> length (ingredients (store (import_row E0 (init_state db0) row_no_price))) = 1
   \<and> code (ingredients (store (import_row E0 (init_state db0) row_no_price)) ! 0) = code flour
   \<and> active (ingredients (store (import_row E0 (init_state db0) row_no_price)) ! 0)
       = active flour
   \<and> price (ingredients (store (import_row E0 (init_state db0) row_no_price)) ! 0) = 0
   \<and> price_date (ingredients (store (import_row E0 (init_state db0) row_no_price)) ! 0)
       = Some (Date 2026 11 4)"
proof -
  let ?c = "\<lparr>v_code = [], v_name = ''flour'', v_category_name = [], v_price_str = ''0'',
            v_uom_name = ''kg'', v_supplier_name = [], v_date_str = []\<rparr>"
  have f: "(case (if v_code ?c \<noteq> []
                  then find (\<lambda>i. code i = Some (v_code ?c)) (ingredients (store (init_state db0)))
                  else None) of
              Some i \<Rightarrow> Some i
            | None \<Rightarrow> find (\<lambda>i. ilike E0 (v_name ?c) (name i))
                        (ingredients (store (init_state db0)))) = Some flour"
    by (simp add: init_state_def db0_def flour_def E0_sel lower_def lower_char_def)
  have p: "float_of E0 (replace_comma (v_price_str ?c)) = Some 0"
    by (simp add: E0_prices)
  have u: "get_uom E0 (store (init_state db0)) (v_uom_name ?c) = Some 1"
    by (simp add: E0_uoms)
  have old: "ingredients (store (init_state db0)) = [flour]"
    by (simp add: init_state_def db0_def)
  have z: "float_of E0 ''0'' = Some 0"
    using E0_prices(3) by (simp add: replace_comma_def)
  from import_update_frame [OF values_no_price _ _ p u f [symmetric] refl refl refl] old
  have "length (ingredients (store (import_row E0 (init_state db0) row_no_price))) = 1
   \<and> code (ingredients (store (import_row E0 (init_state db0) row_no_price)) ! 0) = code flour
   \<and> active (ingredients (store (import_row E0 (init_state db0) row_no_price)) ! 0)
       = active flour
   \<and> price (ingredients (store (import_row E0 (init_state db0) row_no_price)) ! 0) = 0
   \<and> price_date (ingredients (store (import_row E0 (init_state db0) row_no_price)) ! 0)
       = Some (Date 2026 11 4)"
    by (simp add: parse_date_def E0_sel)
  with values_no_price z old show ?thesis by blast
qed

text \<open>
  The same row against the stored values: flour's price was 1.2 and its price date
  2024-01-15; after the update they are 0 and today.
\<close>

theorem import_update_overwrites_price:
  "row_no_price ''price'' = None \<and> row_no_price ''date'' = None
   \<and> updated (import_row E0 (init_state db0) row_no_price) = 1
   \<and> map price (ingredients (store (init_state db0))) = [1.2]
   \<and> map price (ingredients (store (import_row E0 (init_state db0) row_no_price))) = [0]
   \<and> map price_date (ingredients (store (init_state db0))) = [Some (Date 2024 1 15)]
   \<and> map price_date (ingredients (store (import_row E0 (init_state db0) row_no_price)))
       = [Some (Date 2026 11 4)]"
  by (simp add: run_no_price) (simp add: row_no_price_def dict_row_def init_state_def db0_def flour_def)



text \<open>
  C7, as the code has it. The synonym table has exactly the sixteen keys listed, each
  with its unit reference. For a non-empty unit string: when the lowercased, trimmed
  string is a synonym and its reference resolves, that unit is the result, whatever the
  unit table holds; when it is no synonym, or its reference does not resolve, the result
  is the first unit whose name the ORM's \<open>=ilike\<close> matches against the string as given. A
  row whose unit resolves on neither path adds \<open>Row n: Unknown UoM '...'\<close> and nothing
  else changes. \<open>Kg\<close> resolves to the kilogram unit whenever that unit's reference
  resolves.
\<close>

theorem get_uom_resolution:
  "dom (map_of UOM_MAPPING)
     = {''kg'', ''kilo'', ''kilogram'', ''g'', ''gram'', ''l'', ''liter'', ''litre'',
        ''ml'', ''milliliter'', ''millilitre'', ''unit'', ''units'', ''pcs'', ''piece'',
        ''dozen''}
   \<and> map_of UOM_MAPPING ''kg'' = Some ''uom.product_uom_kgm''
   \<and> map_of UOM_MAPPING ''kilo'' = Some ''uom.product_uom_kgm''
   \<and> map_of UOM_MAPPING ''kilogram'' = Some ''uom.product_uom_kgm''
   \<and> map_of UOM_MAPPING ''g'' = Some ''uom.product_uom_gram''
   \<and> map_of UOM_MAPPING ''gram'' = Some ''uom.product_uom_gram''
   \<and> map_of UOM_MAPPING ''l'' = Some ''uom.product_uom_litre''
   \<and> map_of UOM_MAPPING ''liter'' = Some ''uom.product_uom_litre''
   \<and> map_of UOM_MAPPING ''litre'' = Some ''uom.product_uom_litre''
   \<and> map_of UOM_MAPPING ''ml'' = Some ''uom.product_uom_millilitre''
   \<and> map_of UOM_MAPPING ''milliliter'' = Some ''uom.product_uom_millilitre''
   \<and> map_of UOM_MAPPING ''millilitre'' = Some ''uom.product_uom_millilitre''
   \<and> map_of UOM_MAPPING ''unit'' = Some ''uom.product_uom_unit''
   \<and> map_of UOM_MAPPING ''units'' = Some ''uom.product_uom_unit''
   \<and> map_of UOM_MAPPING ''pcs'' = Some ''uom.product_uom_unit''
   \<and> map_of UOM_MAPPING ''piece'' = Some ''uom.product_uom_unit''
   \<and> map_of UOM_MAPPING ''dozen'' = Some ''uom.product_uom_dozen''
   \<and> (s \<noteq> [] \<and> map_of UOM_MAPPING (strip (lower s)) = Some x \<and> ref E x = Some uom
        \<longrightarrow> get_uom E d s = Some uom)
   \<and> (s \<noteq> [] \<and> (map_of UOM_MAPPING (strip (lower s)) = None
                  \<or> (\<exists>x. map_of UOM_MAPPING (strip (lower s)) = Some x \<and> ref E x = None))
        \<longrightarrow> get_uom E d s = map_option uom_ident (find (\<lambda>u. ilike E s (uom_name u)) (uoms d)))
   \<and> (get_values r = Inr c \<and> v_name c \<noteq> [] \<and> v_uom_name c \<noteq> []
        \<and> float_of E (replace_comma (v_price_str c)) = Some p
        \<and> get_uom E (store st) (v_uom_name c) = None
        \<longrightarrow> import_row E st r
              = st\<lparr>row_num := row_num st + 1,
                   errors := errors st @ [''Row '' @ str_nat (row_num st + 1)
                     @ '': Unknown UoM '' @ [CHR 0x27] @ v_uom_name c @ [CHR 0x27]]\<rparr>)
   \<and> (ref E ''uom.product_uom_kgm'' = Some kg \<longrightarrow> get_uom E d ''Kg'' = Some kg)"
proof -
  have syn: "s \<noteq> [] \<and> map_of UOM_MAPPING (strip (lower s)) = Some x \<and> ref E x = Some uom
        \<longrightarrow> get_uom E d s = Some uom"
    using get_uom_synonym [of s x E uom d] by blast
  have fb: "s \<noteq> [] \<and> (map_of UOM_MAPPING (strip (lower s)) = None
                  \<or> (\<exists>x. map_of UOM_MAPPING (strip (lower s)) = Some x \<and> ref E x = None))
        \<longrightarrow> get_uom E d s = map_option uom_ident (find (\<lambda>u. ilike E s (uom_name u)) (uoms d))"
    using get_uom_fallback [of s E d] by blast
  have row: "get_values r = Inr c \<and> v_name c \<noteq> [] \<and> v_uom_name c \<noteq> []
        \<and> float_of E (replace_comma (v_price_str c)) = Some p
        \<and> get_uom E (store st) (v_uom_name c) = None
        \<longrightarrow> import_row E st r
              = st\<lparr>row_num := row_num st + 1,
                   errors := errors st @ [''Row '' @ str_nat (row_num st + 1)
                     @ '': Unknown UoM '' @ [CHR 0x27] @ v_uom_name c @ [CHR 0x27]]\<rparr>"
    using unknown_uom_row [of r c E p st] by blast
  have kg: "ref E ''uom.product_uom_kgm'' = Some kg \<longrightarrow> get_uom E d ''Kg'' = Some kg"
    using get_uom_synonym [of "''Kg''" "''uom.product_uom_kgm''" E kg d] Kg_lower by simp
  from UOM_MAPPING_keys UOM_MAPPING_kg syn fb row kg show ?thesis by blast
qed

text \<open>
  With the standard references, \<open>Kg\<close> is unit 1 whatever the unit table holds, \<open>Units\<close>
  is found by name, and the row with the unit \<open>bushel\<close> is skipped with its message.
\<close>

theorem get_uom_resolution_witness:
  "map_of UOM_MAPPING (strip (lower ''Kg'')) = Some ''uom.product_uom_kgm''
   \<and> ref E0 ''uom.product_uom_kgm'' = Some 1
   \<and> get_uom E0 db_named ''Kg'' = Some 1
   \<and> map_of UOM_MAPPING (strip (lower ''Gr'')) = None
   \<and> get_uom E0 db0 ''Gr'' = None
   \<and> get_uom E_noref db0 ''G'' = Some 2
   \<and> import_row E0 (init_state db0) row_bad_unit
       = (init_state db0)\<lparr>row_num := 2, errors := [''Row 2: Unknown UoM '' @ [CHR 0x27]
            @ ''bushel'' @ [CHR 0x27]]\<rparr>"
proof -
  note inst = get_uom_resolution [where s = "''Kg''" and x = "''uom.product_uom_kgm''"
      and E = E0 and uom = 1 and d = db_named and kg = 1]
  have k: "ref E0 ''uom.product_uom_kgm'' = Some 1"
    by (simp add: E0_sel)
  have a: "get_uom E0 db_named ''Kg'' = Some 1"
    using inst Kg_lower k by simp
  have n: "map_of UOM_MAPPING (strip (lower ''Gr'')) = None"
    by (simp add: UOM_MAPPING_def strip_def lower_def lower_char_def is_space_def)
  have b: "get_uom E0 db0 ''Gr'' = None"
    using get_uom_resolution [where s = "''Gr''" and E = E0 and d = db0] n
    by (simp add: db0_def E0_sel lower_def lower_char_def)
  have g: "map_of UOM_MAPPING (strip (lower ''G'')) = Some ''uom.product_uom_gram''"
    by (simp add: UOM_MAPPING_def strip_def lower_def lower_char_def is_space_def)
  have c: "get_uom E_noref db0 ''G'' = Some 2"
    using get_uom_resolution [where s = "''G''" and E = E_noref and d = db0] g
    by (simp add: db0_def E_noref_def E0_def lower_def lower_char_def)
  have p: "float_of E0 (replace_comma ''1'') = Some 1"
    by (simp add: E0_prices)
  have e: "import_row E0 (init_state db0) row_bad_unit
       = (init_state db0)\<lparr>row_num := 2, errors := [''Row 2: Unknown UoM '' @ [CHR 0x27]
            @ ''bushel'' @ [CHR 0x27]]\<rparr>"
    using get_uom_resolution [where r = row_bad_unit and E = E0 and st = "init_state db0"
        and p = 1 and c = "\<lparr>v_code = [], v_name = ''Salt'', v_category_name = [],
          v_price_str = ''1'', v_uom_name = ''bushel'', v_supplier_name = [], v_date_str = []\<rparr>"]
      values_bad_unit p E0_bushel
    by (simp add: init_state_def str_nat.simps digit_char_def)
  from Kg_lower k a n b c e show ?thesis by blast
qed

text \<open>
  Where no XML id resolves, \<open>Kg\<close> is a synonym and is still looked up by name: it
  resolves to whatever unit is called \<open>KG\<close>, and to nothing in a table without one.
\<close>

theorem get_uom_fallback_after_synonym:
  "map_of UOM_MAPPING (strip (lower ''Kg'')) = Some ''uom.product_uom_kgm''
   \<and> ref E_noref ''uom.product_uom_kgm'' = None
   \<and> get_uom E_noref db_named ''Kg'' = Some 7
   \<and> get_uom E_noref (db_named\<lparr>uoms := []\<rparr>) ''Kg'' = None"
  by (simp add: uom_eval E_noref_def E0_def db_named_def)

text \<open>
  C8. Take any batch and any row \<open>r\<close> of it, after the rows \<open>pre\<close> and before the rows
  \<open>post\<close>, that fails in one of the listed ways when its turn comes. The batch ends as
  the rows \<open>post\<close> end when started from the state before \<open>r\<close> with one message added,
  which starts with \<open>Row\<close> and the row's number (its position among the reader's rows
  plus one, the header being row 1): nothing else of the state changes at \<open>r\<close>. The
  counts and the tables at the end are those of the batch without \<open>r\<close>, and there is
  exactly one message more. A row that does not fail is counted as created or updated
  and adds no message, wherever it stands.
\<close>

theorem failed_row_isolated:
  assumes "s = import_rows E (init_state d) pre"
    and "row_failure E (store s) r = Some msg"
    and "final = import_rows E (init_state d) (pre @ r # post)"
    and "without = import_rows E (init_state d) (pre @ post)"
  shows "final = import_rows E
                   (s\<lparr>row_num := length pre + 2,
                      errors := errors s @ [''Row '' @ str_nat (length pre + 2) @ '': '' @ msg]\<rparr>)
                   post
       \<and> created final = created without \<and> updated final = updated without
       \<and> store final = store without
       \<and> length (errors final) = length (errors without) + 1
       \<and> (row_failure E (store t) r' = None \<longrightarrow>
            errors (import_row E t r') = errors t
          \<and> created (import_row E t r') + updated (import_row E t r')
              = created t + updated t + 1)"
proof -
  have rn: "row_num s = length pre + 1"
    using assms(1) row_num_import_rows [of E "init_state d" pre] by (simp add: init_state_def)
  let ?s' = "s\<lparr>row_num := length pre + 2,
                errors := errors s @ [''Row '' @ str_nat (length pre + 2) @ '': '' @ msg]\<rparr>"
  have step: "import_row E s r = ?s'"
    using import_row_failure [OF assms(2)] rn by simp
  have fin: "final = import_rows E ?s' post"
    using assms(1,3) step by (simp add: import_rows_append import_rows_Cons)
  have wo: "without = import_rows E s post"
    using assms(1,4) by (simp add: import_rows_append)
  have data: "created final = created without \<and> updated final = updated without
       \<and> store final = store without"
    unfolding fin wo by (rule import_rows_data) simp_all
  have "length (errors final) + created final + updated final
          = length (errors without) + created without + updated without + 1"
    using import_rows_count [of E "init_state d" "pre @ r # post"]
          import_rows_count [of E "init_state d" "pre @ post"] assms(3,4)
    by simp
  with data have cnt: "length (errors final) = length (errors without) + 1"
    by simp
  have ok: "row_failure E (store t) r' = None \<longrightarrow>
            errors (import_row E t r') = errors t
          \<and> created (import_row E t r') + updated (import_row E t r')
              = created t + updated t + 1"
  proof
    assume "row_failure E (store t) r' = None"
    from import_row_body_success [OF this, of "row_num t + 1"]
    show "errors (import_row E t r') = errors t
          \<and> created (import_row E t r') + updated (import_row E t r')
              = created t + updated t + 1"
      by (auto simp: import_row_def Let_def)
  qed
  from fin data cnt ok show ?thesis by blast
qed

text \<open>
  Sugar, then a row without a unit column, then cane sugar under sugar's code: one
  message, for row 3, one ingredient created and one updated. A short line fails with
  the exception's text, and the row after it is still imported; a bad price and an
  unknown unit are failures too.
\<close>

theorem failed_row_isolated_witness:
  "row_failure E0 (store (import_rows E0 (init_state db0) [row_sugar])) row_no_uom
     = Some ''Missing unit of measure''
   \<and> errors (import_rows E0 (init_state db0) [row_sugar, row_no_uom, row_cane])
       = [''Row 3: Missing unit of measure'']
   \<and> created (import_rows E0 (init_state db0) [row_sugar, row_no_uom, row_cane]) = 1
   \<and> updated (import_rows E0 (init_state db0) [row_sugar, row_no_uom, row_cane]) = 1
   \<and> store (import_rows E0 (init_state db0) [row_sugar, row_no_uom, row_cane])
       = store (import_rows E0 (init_state db0) [row_sugar, row_cane])
   \<and> row_failure E0 (store (import_rows E0 (init_state db0) [])) row_short
       = Some ([CHR 0x27] @ ''NoneType'' @ [CHR 0x27] @ '' object has no attribute ''
               @ [CHR 0x27] @ ''strip'' @ [CHR 0x27])
   \<and> errors (import_rows E0 (init_state db0) [row_short, row_sugar])
       = [''Row 2: '' @ [CHR 0x27] @ ''NoneType'' @ [CHR 0x27]
          @ '' object has no attribute '' @ [CHR 0x27] @ ''strip'' @ [CHR 0x27]]
   \<and> created (import_rows E0 (init_state db0) [row_short, row_sugar]) = 1
   \<and> row_failure E0 db0 row_bad_price
       = Some (''Invalid price '' @ [CHR 0x27] @ ''abc'' @ [CHR 0x27])
   \<and> row_failure E0 db0 row_bad_unit
       = Some (''Unknown UoM '' @ [CHR 0x27] @ ''bushel'' @ [CHR 0x27])"
proof -
  let ?s = "import_rows E0 (init_state db0) [row_sugar]"
  have s: "?s = \<lparr>created = 1, updated = 0, errors = [], row_num = 2,
                 store = db0\<lparr>ingredients := [flour, sugar]\<rparr>\<rparr>"
    by (simp add: import_rows_def run_sugar)
  have f: "row_failure E0 (store ?s) row_no_uom = Some ''Missing unit of measure''"
    by (simp add: row_failure_def values_no_uom)
  note inst = failed_row_isolated [OF refl f refl refl, of "[row_cane]"]
  have cane: "import_row E0 \<lparr>created = 1, updated = 0, errors = es, row_num = n,
                 store = db0\<lparr>ingredients := [flour, sugar]\<rparr>\<rparr> row_cane
        = \<lparr>created = 1, updated = 1, errors = es, row_num = n + 1,
           store = db0\<lparr>ingredients :=
             [flour, sugar\<lparr>name := ''Cane sugar'', price := 13\<rparr>]\<rparr>\<rparr>" for es n
    by (simp add: import_row_def import_row_body_def values_cane E0_prices E0_uoms db0_def
        flour_def sugar_def parse_date_def E0_sel write_ingredient_def write_vals_def Let_def)
  have a: "errors (import_rows E0 (init_state db0) [row_sugar, row_no_uom, row_cane])
       = [''Row 3: Missing unit of measure'']
   \<and> created (import_rows E0 (init_state db0) [row_sugar, row_no_uom, row_cane]) = 1
   \<and> updated (import_rows E0 (init_state db0) [row_sugar, row_no_uom, row_cane]) = 1
   \<and> store (import_rows E0 (init_state db0) [row_sugar, row_no_uom, row_cane])
       = store (import_rows E0 (init_state db0) [row_sugar, row_cane])"
    using inst s
    by (simp add: import_rows_Cons import_rows_Nil cane [simplified] str_nat.simps
        digit_char_def)
  have g: "row_failure E0 (store (import_rows E0 (init_state db0) [])) row_short
       = Some ([CHR 0x27] @ ''NoneType'' @ [CHR 0x27] @ '' object has no attribute ''
               @ [CHR 0x27] @ ''strip'' @ [CHR 0x27])"
    by (simp add: row_failure_def values_short)
  have sugar_any: "import_row E0 \<lparr>created = 0, updated = 0, errors = es, row_num = n,
                 store = db0\<rparr> row_sugar
        = \<lparr>created = 1, updated = 0, errors = es, row_num = n + 1,
           store = db0\<lparr>ingredients := [flour, sugar]\<rparr>\<rparr>" for es n
    by (simp add: import_row_def import_row_body_def values_sugar E0_prices E0_uoms db0_def
        flour_def sugar_def parse_date_def E0_sel lower_def lower_char_def
        create_ingredient_def write_vals_def next_id_def Let_def)
  have b: "errors (import_rows E0 (init_state db0) [row_short, row_sugar])
       = [''Row 2: '' @ [CHR 0x27] @ ''NoneType'' @ [CHR 0x27]
          @ '' object has no attribute '' @ [CHR 0x27] @ ''strip'' @ [CHR 0x27]]
   \<and> created (import_rows E0 (init_state db0) [row_short, row_sugar]) = 1"
    using failed_row_isolated [OF refl g refl refl, of "[row_sugar]"]
    by (simp add: import_rows_Cons import_rows_Nil init_state_def sugar_any [simplified]
        str_nat.simps digit_char_def)
  have h: "row_failure E0 db0 row_bad_price
       = Some (''Invalid price '' @ [CHR 0x27] @ ''abc'' @ [CHR 0x27])"
    by (simp add: row_failure_def values_bad_price E0_prices)
  have i: "row_failure E0 db0 row_bad_unit
       = Some (''Unknown UoM '' @ [CHR 0x27] @ ''bushel'' @ [CHR 0x27])"
    by (simp add: row_failure_def values_bad_unit E0_prices E0_bushel)
  from f a g b h i show ?thesis by blast
qed

text \<open>
  C9. When \<open>action_import\<close> returns, the report is the lines of \<open>result_lines\<close> joined by
  newlines, for the counts and messages of the import of the uploaded rows. The first
  three lines are the title, \<open>Created: n\<close> and \<open>Updated: m\<close>. With no message there is
  nothing more. With messages, the fourth line is the header with their number, then
  come the messages in the order the rows produced them, all of them when there are at
  most 20, and the first 20 followed by \<open>... and k more errors\<close> (\<open>k\<close> the number of
  the others) when there are more. The messages of the first rows of a batch are
  a prefix of the messages of the whole batch.
\<close>

theorem import_report:
  assumes "action_import E d self = Inr (self', d')"
    and "file_data self = Some f"
    and "rows = DictReader (csv_reader E f (delimiter self))"
    and "st = import_rows E (init_state d) rows"
    and "ls = result_lines (created st) (updated st) (errors st)"
  shows "result_message self' = Some (join_lines ls) \<and> state self' = ''done'' \<and> d' = store st
       \<and> take 3 ls = [''Import completed!'', ''Created: '' @ str_nat (created st),
                       ''Updated: '' @ str_nat (updated st)]
       \<and> (errors st = [] \<longrightarrow> length ls = 3)
       \<and> (errors st \<noteq> [] \<longrightarrow>
            ls ! 3 = [CHR 0x0A] @ ''Errors ('' @ str_nat (length (errors st)) @ ''):''
          \<and> take 20 (drop 4 ls) = take 20 (errors st))
       \<and> (errors st \<noteq> [] \<and> length (errors st) \<le> 20 \<longrightarrow> drop 4 ls = errors st)
       \<and> (length (errors st) > 20 \<longrightarrow>
            drop 4 ls = take 20 (errors st)
              @ [''... and '' @ str_nat (length (errors st) - 20) @ '' more errors''])
       \<and> (\<forall>k \<le> length rows.
             take (length (errors (import_rows E (init_state d) (take k rows)))) (errors st)
               = errors (import_rows E (init_state d) (take k rows)))"
proof -
  have a: "result_message self' = Some (join_lines ls) \<and> state self' = ''done'' \<and> d' = store st"
    using assms unfolding action_import_def
    by (auto simp: Let_def split: option.splits if_splits)
  have b: "take 3 ls = [''Import completed!'', ''Created: '' @ str_nat (created st),
                       ''Updated: '' @ str_nat (updated st)]"
    using assms(5) by (simp add: result_lines_def)
  have c: "errors st = [] \<longrightarrow> length ls = 3"
    using assms(5) by (simp add: result_lines_def)
  have d: "errors st \<noteq> [] \<longrightarrow>
            ls ! 3 = [CHR 0x0A] @ ''Errors ('' @ str_nat (length (errors st)) @ ''):''
          \<and> take 20 (drop 4 ls) = take 20 (errors st)"
    using assms(5) by (simp add: result_lines_def)
  have e: "errors st \<noteq> [] \<and> length (errors st) \<le> 20 \<longrightarrow> drop 4 ls = errors st"
    using assms(5) by (simp add: result_lines_def)
  have f: "length (errors st) > 20 \<longrightarrow>
            drop 4 ls = take 20 (errors st)
              @ [''... and '' @ str_nat (length (errors st) - 20) @ '' more errors'']"
    using assms(5) by (auto simp: result_lines_def)
  have g: "\<forall>k \<le> length rows.
             take (length (errors (import_rows E (init_state d) (take k rows)))) (errors st)
               = errors (import_rows E (init_state d) (take k rows))"
  proof (intro allI impI)
    fix k assume "k \<le> length rows"
    have "st = import_rows E (import_rows E (init_state d) (take k rows)) (drop k rows)"
      using assms(4) import_rows_append [of E "init_state d" "take k rows" "drop k rows"]
      by simp
    with errors_import_rows_prefix [of E "import_rows E (init_state d) (take k rows)"
        "drop k rows"]
    obtain es where "errors st = errors (import_rows E (init_state d) (take k rows)) @ es"
      by auto
    then show "take (length (errors (import_rows E (init_state d) (take k rows)))) (errors st)
               = errors (import_rows E (init_state d) (take k rows))"
      by simp
  qed
  from a b c d e f g show ?thesis by blast
qed

text \<open>
  The upload \<open>Name, Price, UOM / Flour, 1.20, kg / (blank) / Salt, x, kg\<close>: flour is
  updated, and salt, the third row, has a bad price.
\<close>

theorem import_report_witness:
  "\<exists>self' d'. action_import E_csv db0 wizard0 = Inr (self', d')
     \<and> file_data wizard0 = Some ''payload''
     \<and> result_message self'
         = Some (''Import completed!'' @ [CHR 0x0A] @ ''Created: 0'' @ [CHR 0x0A]
                 @ ''Updated: 1'' @ [CHR 0x0A] @ [CHR 0x0A] @ ''Errors (1):'' @ [CHR 0x0A]
                 @ ''Row 3: Invalid price '' @ [CHR 0x27] @ ''x'' @ [CHR 0x27])
     \<and> state self' = ''done''"
proof -
  let ?rows = "DictReader (csv_reader E_csv ''payload'' (delimiter wizard0))"
  have rows: "?rows = [dict_row [''name'', ''price'', ''uom''] [''Flour'', ''1.20'', ''kg''],
                      dict_row [''name'', ''price'', ''uom''] [''Salt'', ''x'', ''kg'']]"
    by (simp add: DictReader_def E_csv_def wizard0_def strip_def lower_def lower_char_def
        is_space_def)
  have sel: "float_of E_csv = py_float" "ilike E_csv = (\<lambda>p v. lower p = lower v)"
    "today E_csv = Date 2026 11 4" "strptime E_csv = strptime_iso"
    "ref E_csv = map_of [(''uom.product_uom_kgm'', 1), (''uom.product_uom_gram'', 2),
                    (''uom.product_uom_unit'', 3)]"
    by (simp_all add: E_csv_def E0_def)
  have v1: "get_values (dict_row [''name'', ''price'', ''uom''] [''Flour'', ''1.20'', ''kg''])
     = Inr \<lparr>v_code = [], v_name = ''Flour'', v_category_name = [], v_price_str = ''1.20'',
            v_uom_name = ''kg'', v_supplier_name = [], v_date_str = []\<rparr>"
    by (simp add: row_eval)
  have v2: "get_values (dict_row [''name'', ''price'', ''uom''] [''Salt'', ''x'', ''kg''])
     = Inr \<lparr>v_code = [], v_name = ''Salt'', v_category_name = [], v_price_str = ''x'',
            v_uom_name = ''kg'', v_supplier_name = [], v_date_str = []\<rparr>"
    by (simp add: row_eval)
  have pr: "py_float (replace_comma ''1.20'') = Some 1.2" "py_float (replace_comma ''x'') = None"
    by (simp_all add: replace_comma_def py_float_eval)
  have um: "get_uom E_csv dd ''kg'' = Some 1" for dd
    by (simp add: uom_eval sel)
  have r1: "import_row E_csv (init_state db0)
              (dict_row [''name'', ''price'', ''uom''] [''Flour'', ''1.20'', ''kg''])
        = \<lparr>created = 0, updated = 1, errors = [], row_num = 2,
           store = db0\<lparr>ingredients :=
             [flour\<lparr>price_date := Some (Date 2026 11 4)\<rparr>]\<rparr>\<rparr>"
    by (simp add: import_row_def import_row_body_def v1 sel pr um init_state_def db0_def
        flour_def parse_date_def lower_def lower_char_def write_ingredient_def write_vals_def
        Let_def)
  have r2: "import_row E_csv \<lparr>created = cr, updated = up, errors = es, row_num = n, store = dd\<rparr>
              (dict_row [''name'', ''price'', ''uom''] [''Salt'', ''x'', ''kg''])
        = \<lparr>created = cr, updated = up,
           errors = es @ [''Row '' @ str_nat (n + 1) @ '': Invalid price '' @ [CHR 0x27]
                          @ ''x'' @ [CHR 0x27]],
           row_num = n + 1, store = dd\<rparr>" for cr up es n dd
    by (simp add: import_row_def import_row_body_def v2 sel pr Let_def)
  have st: "import_rows E_csv (init_state db0) ?rows
        = \<lparr>created = 0, updated = 1,
           errors = [''Row 3: Invalid price '' @ [CHR 0x27] @ ''x'' @ [CHR 0x27]], row_num = 3,
           store = db0\<lparr>ingredients := [flour\<lparr>price_date := Some (Date 2026 11 4)\<rparr>]\<rparr>\<rparr>"
    unfolding rows
    by (simp add: import_rows_Cons import_rows_Nil r1 r2 [simplified] str_nat.simps
        digit_char_def)
  obtain self' d' where run: "action_import E_csv db0 wizard0 = Inr (self', d')"
    by (simp add: action_import_def wizard0_def Let_def)
  have fd: "file_data wizard0 = Some ''payload''"
    by (simp add: wizard0_def)
  from import_report [OF run fd refl refl refl]
  have "result_message self'
         = Some (''Import completed!'' @ [CHR 0x0A] @ ''Created: 0'' @ [CHR 0x0A]
                 @ ''Updated: 1'' @ [CHR 0x0A] @ [CHR 0x0A] @ ''Errors (1):'' @ [CHR 0x0A]
                 @ ''Row 3: Invalid price '' @ [CHR 0x27] @ ''x'' @ [CHR 0x27])
     \<and> state self' = ''done''"
    by (simp add: st result_lines_def str_nat.simps digit_char_def)
  with run fd show ?thesis by blast
qed

end
